theory Spec2Isabelle
  imports Complex_Main "HOL-Library.Word"
begin

section \<open>PDF to PNG conversion (app/lib/pdf2img.ts)\<close>

text \<open>
  The module \<^verbatim>\<open>app/lib/pdf2img.ts\<close> orchestrates calls into the PDF engine (pdf.js), the
  host's canvas and the host's URL registry. Every call that leaves the module is modelled
  by its outcome: it returns a value, it throws (a promise that rejects), or it never
  settles (an awaited promise that stays pending). The module's own mutable variables
  \<^verbatim>\<open>pdfjsLib\<close> and \<^verbatim>\<open>loadPromise\<close> are fields of an explicit state that every operation
  takes and returns.
\<close>

subsection \<open>Thrown values and outcomes\<close>

text \<open>
  What a JavaScript \<^verbatim>\<open>throw\<close> or a rejected promise carries: an \<^verbatim>\<open>Error\<close> object with a
  name and a message, a string, \<^verbatim>\<open>null\<close> or \<^verbatim>\<open>undefined\<close>. For each of them \<^verbatim>\<open>String(err)\<close>
  is defined; objects whose conversion to a string itself throws are not modelled.
\<close>

datatype thrown =
    ErrorObject string string
  | ThrownString string
  | ThrownNull
  | ThrownUndefined

text \<open>\<^verbatim>\<open>err?.message\<close>: only an \<^verbatim>\<open>Error\<close> object has the property.\<close>

fun err_message :: "thrown \<Rightarrow> string option" where
  "err_message (ErrorObject n m) = Some m"
| "err_message (ThrownString s) = None"
| "err_message ThrownNull = None"
| "err_message ThrownUndefined = None"

text \<open>
  \<^verbatim>\<open>String(err)\<close>: \<^verbatim>\<open>Error.prototype.toString\<close> gives the name when the message is empty,
  the message when the name is empty, and \<^verbatim>\<open>name: message\<close> otherwise.
\<close>

fun js_String :: "thrown \<Rightarrow> string" where
  "js_String (ErrorObject n m) =
     (if n = [] then m else if m = [] then n else n @ '': '' @ m)"
| "js_String (ThrownString s) = s"
| "js_String ThrownNull = ''null''"
| "js_String ThrownUndefined = ''undefined''"

datatype 'a outcome = Returns 'a | Throws thrown | Never

subsection \<open>The regular expression \<^verbatim>\<open>/\.pdf$/i\<close>\<close>

text \<open>
  Case-insensitive matching compares characters after ECMAScript's Canonicalize, which
  maps a character to its upper case; a character outside ASCII is never mapped into
  ASCII, so only the letters a to z are affected here.
\<close>

definition canonicalize :: "char \<Rightarrow> char" where
  "canonicalize c =
     (let n = (of_char c :: nat) in if 97 \<le> n \<and> n \<le> 122 then char_of (n - 32) else c)"

definition ci_eq :: "char \<Rightarrow> char \<Rightarrow> bool" where
  "ci_eq p c = (canonicalize p = canonicalize c)"

text \<open>
  The pattern matches at a position when the four characters \<^verbatim>\<open>.pdf\<close> stand there
  (letters in either case) and \<^verbatim>\<open>$\<close> holds after them: the input ends.
\<close>

definition pdf_here :: "string \<Rightarrow> bool" where
  "pdf_here s = list_all2 ci_eq ''.pdf'' s"

text \<open>The regular expression's search: the leftmost position where the pattern matches.\<close>

fun pdf_regex_exec :: "string \<Rightarrow> nat option" where
  "pdf_regex_exec [] = (if pdf_here [] then Some 0 else None)"
| "pdf_regex_exec (c # cs) =
     (if pdf_here (c # cs) then Some 0 else map_option Suc (pdf_regex_exec cs))"

text \<open>\<^verbatim>\<open>/\.pdf$/i.test(name)\<close>\<close>

definition pdf_regex_test :: "string \<Rightarrow> bool" where
  "pdf_regex_test s = (pdf_regex_exec s \<noteq> None)"

text \<open>\<^verbatim>\<open>name.replace(/\.pdf$/i, "")\<close>: the first match is removed, no match leaves the string.\<close>

definition pdf_regex_replace :: "string \<Rightarrow> string" where
  "pdf_regex_replace s =
     (case pdf_regex_exec s of None \<Rightarrow> s | Some i \<Rightarrow> take i s @ drop (i + 4) s)"

subsection \<open>Data\<close>

type_synonym bytes = "8 word list"

text \<open>The argument: a \<^verbatim>\<open>File\<close>, with its name and the outcome of \<^verbatim>\<open>file.arrayBuffer()\<close>.\<close>

record source_file =
  name :: string
  arrayBuffer :: "bytes outcome"

text \<open>
  The engine boundary. The engine (the library pdfjs-dist) is not among the sources; a
  page is known by its native size and by the outcome of \<^verbatim>\<open>render(...).promise\<close>, a
  document by the outcome of loading each of its pages. Numbers are JavaScript doubles,
  idealised as rationals.
\<close>

record viewport =
  width :: rat
  height :: rat

record pdf_page =
  native_width :: rat
  native_height :: rat
  render_promise :: "unit outcome"

text \<open>
  Modelled from the spec: the engine's \<^verbatim>\<open>Page.getViewport({scale})\<close>, which is not among
  the sources. The spec's glossary has the viewport as the rectangle derived from the
  page's natural size times a scale factor.
\<close>

definition getViewport :: "pdf_page \<Rightarrow> rat \<Rightarrow> viewport" where
  "getViewport page scale =
     \<lparr>width = scale * native_width page, height = scale * native_height page\<rparr>"

record pdf_document =
  doc_pages :: "pdf_page outcome list"

text \<open>
  Modelled from the spec: the engine's \<^verbatim>\<open>Document.getPage(pageNumber)\<close>, which is not
  among the sources. The spec's engine boundary has page numbers count from 1; a number
  outside the document is rejected.
\<close>

definition getPage :: "pdf_document \<Rightarrow> nat \<Rightarrow> pdf_page outcome" where
  "getPage pdf n =
     (if 1 \<le> n \<and> n \<le> length (doc_pages pdf) then doc_pages pdf ! (n - 1)
      else Throws (ErrorObject ''Error'' ''Invalid page request.''))"

text \<open>
  The engine module \<^verbatim>\<open>pdfjs-dist/legacy/build/pdf.mjs\<close>: \<^verbatim>\<open>getDocument({data}).promise\<close>
  and the setting \<^verbatim>\<open>GlobalWorkerOptions.workerSrc\<close>.
\<close>

record pdfjs_module =
  getDocument :: "bytes \<Rightarrow> pdf_document outcome"
  workerSrc :: "string option"

text \<open>
  The module that \<^verbatim>\<open>import("pdfjs-dist/build/pdf.worker.min.mjs?url")\<close> resolves to:
  a falsy value, or an object whose \<^verbatim>\<open>default\<close> export is missing or a string.
\<close>

datatype worker_module = FalsyModule | Module "string option"

text \<open>
  Assigning a number to \<^verbatim>\<open>canvas.width\<close> or \<^verbatim>\<open>canvas.height\<close>. Both are attributes of the
  type \<^verbatim>\<open>unsigned long\<close>: the number is truncated toward zero and reduced modulo \<open>2^32\<close>,
  and a result above \<open>2147483647\<close> is replaced by the attribute's default (300 for the
  width, 150 for the height). A page of size A4 at scale 3, 1785.828 by 2525.67, makes a
  canvas of 1785 by 2525 pixels.
\<close>

definition to_unsigned_long :: "rat \<Rightarrow> nat" where
  "to_unsigned_long x = nat ((if x < 0 then \<lceil>x\<rceil> else \<lfloor>x\<rfloor>) mod 4294967296)"

definition canvas_dimension :: "nat \<Rightarrow> rat \<Rightarrow> nat" where
  "canvas_dimension dflt x =
     (let n = to_unsigned_long x in if n \<le> 2147483647 then n else dflt)"

text \<open>
  The canvas (the smoothing settings of its 2D context are kept with it), the PNG blob
  made from it, and the \<^verbatim>\<open>File\<close> wrapped around the blob. Widths and heights are whole
  numbers of pixels. The
  result's field \<^verbatim>\<open>file\<close> is called \<open>imageFile\<close> here (\<open>file\<close> is a keyword of Isabelle);
  \<open>None\<close> is \<^verbatim>\<open>null\<close>, and an \<open>error\<close> of \<open>None\<close> is a result without the field.
\<close>

record canvas =
  canvas_width :: nat
  canvas_height :: nat
  imageSmoothingEnabled :: bool
  imageSmoothingQuality :: string

record blob =
  blob_width :: nat
  blob_height :: nat
  blob_data :: bytes

record image_file =
  file_name :: string
  file_type :: string
  file_blob :: blob

record PdfConversionResult =
  imageUrl :: string
  imageFile :: "image_file option"
  error :: "string option"

text \<open>
  The host: whether \<^verbatim>\<open>window\<close> is defined, what the two dynamic imports settle to, the
  outcome of \<^verbatim>\<open>document.createElement("canvas")\<close>, the outcome of
  \<^verbatim>\<open>canvas.getContext("2d")\<close> (\<open>True\<close> for a context, \<open>False\<close> for \<^verbatim>\<open>null\<close>), what
  \<^verbatim>\<open>canvas.toBlob\<close> hands to its callback (PNG bytes or \<^verbatim>\<open>null\<close>), and the outcome of
  \<^verbatim>\<open>URL.createObjectURL\<close> (the part of the URL after its scheme).
\<close>

record host =
  has_window :: bool
  engine_import :: "pdfjs_module outcome"
  worker_import :: "worker_module outcome"
  createElement_canvas :: "unit outcome"
  getContext_2d :: "bool outcome"
  toBlob_callback :: "bytes option outcome"
  createObjectURL_id :: "string outcome"

text \<open>
  \<^verbatim>\<open>canvas.toBlob\<close> encodes the canvas bitmap: the image has the canvas's dimensions.
  Whether the callback gets bytes or \<^verbatim>\<open>null\<close> is the host's to say (it says \<^verbatim>\<open>null\<close> for a
  canvas without pixels).
\<close>

definition toBlob :: "host \<Rightarrow> canvas \<Rightarrow> blob option outcome" where
  "toBlob h cv =
     (case toBlob_callback h of
        Returns None \<Rightarrow> Returns None
      | Returns (Some d) \<Rightarrow>
          Returns (Some \<lparr>blob_width = canvas_width cv, blob_height = canvas_height cv,
                         blob_data = d\<rparr>)
      | Throws e \<Rightarrow> Throws e
      | Never \<Rightarrow> Never)"

text \<open>
  \<^verbatim>\<open>URL.createObjectURL\<close> is the host's: where it returns, it returns a URL of the scheme
  \<^verbatim>\<open>blob:\<close>.
\<close>

definition createObjectURL :: "host \<Rightarrow> blob \<Rightarrow> string outcome" where
  "createObjectURL h b =
     (case createObjectURL_id h of
        Returns u \<Rightarrow> Returns (''blob:'' @ u)
      | Throws e \<Rightarrow> Throws e
      | Never \<Rightarrow> Never)"

subsection \<open>getWorkerUrl\<close>

definition getWorkerUrl :: "worker_module outcome \<Rightarrow> string outcome" where
  "getWorkerUrl imp =
     (case imp of
        Returns FalsyModule \<Rightarrow> Returns ''/pdf.worker.min.mjs''
      | Returns (Module None) \<Rightarrow> Returns ''/pdf.worker.min.mjs''
      | Returns (Module (Some u)) \<Rightarrow> Returns (if u \<noteq> [] then u else ''/pdf.worker.min.mjs'')
      | Throws e \<Rightarrow> Returns ''/pdf.worker.min.mjs''
      | Never \<Rightarrow> Never)"

subsection \<open>The module's state\<close>

text \<open>
  \<^verbatim>\<open>loadPromise\<close> refers to a promise: promises live in a store and are named by their
  index in it. The promise made by the asynchronous function inside \<^verbatim>\<open>loadPdfJs\<close> is
  pending while its body awaits the engine import, then pending while it awaits
  \<^verbatim>\<open>getWorkerUrl()\<close> (holding the imported module), and at last fulfilled or rejected.
  The state also keeps the list of the calls made into the engine, in order.
\<close>

datatype load_promise =
    AwaitingImport
  | AwaitingWorkerUrl pdfjs_module
  | Fulfilled pdfjs_module
  | Rejected thrown

datatype engine_call =
    ImportEngine
  | ImportWorker
  | SetWorkerSrc string
  | GetDocument bytes
  | GetPage nat
  | GetViewport rat
  | Render viewport

record module_state =
  pdfjsLib :: "pdfjs_module option"
  loadPromise :: "nat option"
  promises :: "load_promise list"
  calls :: "engine_call list"

definition initial_state :: module_state where
  "initial_state = \<lparr>pdfjsLib = None, loadPromise = None, promises = [], calls = []\<rparr>"

subsection \<open>loadPdfJs\<close>

text \<open>
  What a call of \<^verbatim>\<open>loadPdfJs\<close> hands back before anything is awaited: the cached module, or
  a promise to wait for.
\<close>

datatype load_return = Immediate pdfjs_module | Awaits nat

text \<open>
  The synchronous part of \<^verbatim>\<open>loadPdfJs\<close>: the two early returns, and otherwise the start of
  the asynchronous body, which runs up to its first \<^verbatim>\<open>await\<close> (the import of the engine is
  under way) and whose promise is stored in \<^verbatim>\<open>loadPromise\<close>.
\<close>

definition loadPdfJs_call :: "module_state \<Rightarrow> module_state \<times> load_return" where
  "loadPdfJs_call s =
     (case pdfjsLib s of
        Some lib \<Rightarrow> (s, Immediate lib)
      | None \<Rightarrow>
         (case loadPromise s of
            Some p \<Rightarrow> (s, Awaits p)
          | None \<Rightarrow>
              (let p = length (promises s)
               in (s\<lparr>loadPromise := Some p,
                      promises := promises s @ [AwaitingImport],
                      calls := calls s @ [ImportEngine]\<rparr>, Awaits p))))"

text \<open>
  The asynchronous body resumes when the engine import settles: a rejection rejects the
  body's promise, a module lets the body go on to call \<^verbatim>\<open>getWorkerUrl()\<close>.
\<close>

definition engine_import_settles ::
  "nat \<Rightarrow> pdfjs_module outcome \<Rightarrow> module_state \<Rightarrow> module_state" where
  "engine_import_settles p imp s =
     (if p < length (promises s) then
        (case promises s ! p of
           AwaitingImport \<Rightarrow>
             (case imp of
                Returns lib \<Rightarrow>
                  s\<lparr>promises := (promises s)[p := AwaitingWorkerUrl lib],
                    calls := calls s @ [ImportWorker]\<rparr>
              | Throws e \<Rightarrow> s\<lparr>promises := (promises s)[p := Rejected e]\<rparr>
              | Never \<Rightarrow> s)
         | _ \<Rightarrow> s)
      else s)"

text \<open>
  The body resumes again when \<^verbatim>\<open>getWorkerUrl()\<close> settles: it sets the worker's location in
  the module, stores the module in \<^verbatim>\<open>pdfjsLib\<close> and returns it, which fulfils the promise.
\<close>

definition worker_import_settles ::
  "nat \<Rightarrow> worker_module outcome \<Rightarrow> module_state \<Rightarrow> module_state" where
  "worker_import_settles p imp s =
     (if p < length (promises s) then
        (case promises s ! p of
           AwaitingWorkerUrl lib \<Rightarrow>
             (case getWorkerUrl imp of
                Returns workerUrl \<Rightarrow>
                  (let lib' = lib\<lparr>workerSrc := Some workerUrl\<rparr>
                   in s\<lparr>pdfjsLib := Some lib',
                         promises := (promises s)[p := Fulfilled lib'],
                         calls := calls s @ [SetWorkerSrc workerUrl]\<rparr>)
              | Throws e \<Rightarrow> s\<lparr>promises := (promises s)[p := Rejected e]\<rparr>
              | Never \<Rightarrow> s)
         | _ \<Rightarrow> s)
      else s)"

text \<open>What awaiting a promise of the store gives in a state.\<close>

definition promise_outcome :: "module_state \<Rightarrow> nat \<Rightarrow> pdfjs_module outcome" where
  "promise_outcome s p =
     (if p < length (promises s) then
        (case promises s ! p of
           Fulfilled lib \<Rightarrow> Returns lib
         | Rejected e \<Rightarrow> Throws e
         | _ \<Rightarrow> Never)
      else Never)"

text \<open>
  \<^verbatim>\<open>await loadPdfJs()\<close> within one conversion: the call, then the imports settle as the host
  has them settle, then the promise's outcome.
\<close>

definition loadPdfJs :: "host \<Rightarrow> module_state \<Rightarrow> module_state \<times> pdfjs_module outcome" where
  "loadPdfJs h s =
     (case loadPdfJs_call s of
        (s1, Immediate lib) \<Rightarrow> (s1, Returns lib)
      | (s1, Awaits p) \<Rightarrow>
          (let s2 = engine_import_settles p (engine_import h) s1;
               s3 = worker_import_settles p (worker_import h) s2
           in (s3, promise_outcome s3 p)))"

text \<open>
  Calls interleaved: any number of calls of \<^verbatim>\<open>loadPdfJs\<close> may be made while the imports
  are pending, and the imports settle at any later moment. A run is a list of such
  events; it yields the state and what each call handed back, in order.
\<close>

datatype event =
    CallLoadPdfJs
  | EngineImportSettles nat "pdfjs_module outcome"
  | WorkerImportSettles nat "worker_module outcome"

fun step :: "event \<Rightarrow> module_state \<times> load_return list \<Rightarrow> module_state \<times> load_return list" where
  "step CallLoadPdfJs (s, rs) = (case loadPdfJs_call s of (s', r) \<Rightarrow> (s', rs @ [r]))"
| "step (EngineImportSettles p imp) (s, rs) = (engine_import_settles p imp s, rs)"
| "step (WorkerImportSettles p imp) (s, rs) = (worker_import_settles p imp s, rs)"

fun run :: "event list \<Rightarrow> module_state \<times> load_return list \<Rightarrow> module_state \<times> load_return list" where
  "run [] c = c"
| "run (e # es) c = run es (step e c)"

text \<open>The module that a call's return value resolves to, once it has.\<close>

fun resolves_to :: "module_state \<Rightarrow> load_return \<Rightarrow> pdfjs_module option" where
  "resolves_to s (Immediate lib) = Some lib"
| "resolves_to s (Awaits p) =
     (case promise_outcome s p of Returns lib \<Rightarrow> Some lib | _ \<Rightarrow> None)"

subsection \<open>convertPdfToImage\<close>

text \<open>
  A step of an asynchronous body takes the state and gives the new state and an outcome;
  \<open>await\<close> runs the rest of the body on a returned value and stops the body on a throw or
  on a promise that never settles.
\<close>

definition await ::
  "(module_state \<Rightarrow> module_state \<times> 'a outcome) \<Rightarrow>
   ('a \<Rightarrow> module_state \<Rightarrow> module_state \<times> 'b outcome) \<Rightarrow>
   module_state \<Rightarrow> module_state \<times> 'b outcome" where
  "await m k s =
     (case m s of
        (s', Returns v) \<Rightarrow> k v s'
      | (s', Throws e) \<Rightarrow> (s', Throws e)
      | (s', Never) \<Rightarrow> (s', Never))"

definition engine :: "engine_call \<Rightarrow> 'a outcome \<Rightarrow> module_state \<Rightarrow> module_state \<times> 'a outcome" where
  "engine c r s = (s\<lparr>calls := calls s @ [c]\<rparr>, r)"

definition host_call :: "'a outcome \<Rightarrow> module_state \<Rightarrow> module_state \<times> 'a outcome" where
  "host_call r s = (s, r)"

definition returns :: "'a \<Rightarrow> module_state \<Rightarrow> module_state \<times> 'a outcome" where
  "returns v s = (s, Returns v)"

text \<open>The body of the \<^verbatim>\<open>try\<close> block.\<close>

definition main_path ::
  "host \<Rightarrow> source_file \<Rightarrow> module_state \<Rightarrow> module_state \<times> PdfConversionResult outcome" where
  "main_path h f =
     await (loadPdfJs h) (\<lambda>lib.
     await (host_call (arrayBuffer f)) (\<lambda>buf.
     await (engine (GetDocument buf) (getDocument lib buf)) (\<lambda>pdf.
     await (engine (GetPage 1) (getPage pdf 1)) (\<lambda>page.
     await (engine (GetViewport 3) (Returns (getViewport page 3))) (\<lambda>vp.
     await (host_call (createElement_canvas h)) (\<lambda>_.
     await (host_call (getContext_2d h)) (\<lambda>context.
       if \<not> context then
         returns \<lparr>imageUrl = [], imageFile = None,
                  error = Some ''Unable to get 2D canvas context.''\<rparr>
       else
         (let cv = \<lparr>canvas_width = canvas_dimension 300 (width vp),
                    canvas_height = canvas_dimension 150 (height vp),
                    imageSmoothingEnabled = True, imageSmoothingQuality = ''high''\<rparr>
          in await (engine (Render vp) (render_promise page)) (\<lambda>_.
             await (host_call (toBlob h cv)) (\<lambda>blob.
               (case blob of
                  None \<Rightarrow>
                    returns \<lparr>imageUrl = [], imageFile = None,
                             error = Some ''Failed to create image blob from canvas.''\<rparr>
                | Some b \<Rightarrow>
                    (let originalName = pdf_regex_replace (name f);
                         image = \<lparr>file_name = originalName @ ''.png'',
                                  file_type = ''image/png'', file_blob = b\<rparr>
                     in await (host_call (createObjectURL h b)) (\<lambda>url.
                          returns \<lparr>imageUrl = url, imageFile = Some image,
                                   error = None\<rparr>)))))))))))))"

text \<open>The \<^verbatim>\<open>catch\<close> block's message: \<^verbatim>\<open>err?.message || String(err)\<close>.\<close>

definition caught_message :: "thrown \<Rightarrow> string" where
  "caught_message err =
     (case err_message err of
        Some m \<Rightarrow> if m \<noteq> [] then m else js_String err
      | None \<Rightarrow> js_String err)"

definition convertPdfToImage ::
  "host \<Rightarrow> source_file option \<Rightarrow> module_state \<Rightarrow>
   module_state \<times> PdfConversionResult outcome" where
  "convertPdfToImage h file_arg s =
     (if \<not> has_window h then
        (s, Returns \<lparr>imageUrl = [], imageFile = None,
                     error = Some ''PDF conversion is only available in the browser.''\<rparr>)
      else
        (case file_arg of
           None \<Rightarrow>
             (s, Returns \<lparr>imageUrl = [], imageFile = None,
                          error = Some ''Please provide a valid .pdf file.''\<rparr>)
         | Some f \<Rightarrow>
             if \<not> pdf_regex_test (name f) then
               (s, Returns \<lparr>imageUrl = [], imageFile = None,
                            error = Some ''Please provide a valid .pdf file.''\<rparr>)
             else
               (case main_path h f s of
                  (s', Throws err) \<Rightarrow>
                    (s', Returns \<lparr>imageUrl = [], imageFile = None,
                                  error = Some (''Failed to convert PDF: '' @ caught_message err)\<rparr>)
                | (s', Returns r) \<Rightarrow> (s', Returns r)
                | (s', Never) \<Rightarrow> (s', Never))))"

subsection \<open>Notions used to state the properties\<close>

text \<open>
  A name ends in \<^verbatim>\<open>.pdf\<close>, letters in either case: its last four characters are one of the
  eight spellings.
\<close>

definition ends_in_pdf_ignoring_case :: "string \<Rightarrow> bool" where
  "ends_in_pdf_ignoring_case s =
     (4 \<le> length s \<and>
      drop (length s - 4) s \<in>
        set [''.pdf'', ''.pdF'', ''.pDf'', ''.pDF'', ''.Pdf'', ''.PdF'', ''.PDf'', ''.PDF''])"

text \<open>The call that initialises the engine: setting the worker's location.\<close>

definition is_SetWorkerSrc :: "engine_call \<Rightarrow> bool" where
  "is_SetWorkerSrc c = (case c of SetWorkerSrc _ \<Rightarrow> True | _ \<Rightarrow> False)"

text \<open>
  The invariant of the loader: at most one promise was ever made and \<^verbatim>\<open>loadPromise\<close> refers
  to it, the engine import was started once for it, \<^verbatim>\<open>pdfjsLib\<close> holds a module exactly when
  that promise is fulfilled with it, and every call so far handed back that promise or
  the module in \<^verbatim>\<open>pdfjsLib\<close>.
\<close>

definition single_flight :: "module_state \<times> load_return list \<Rightarrow> bool" where
  "single_flight c =
     (case c of (s, rs) \<Rightarrow>
        length (promises s) \<le> 1 \<and>
        count_list (calls s) ImportEngine = length (promises s) \<and>
        (loadPromise s = None \<and> promises s = [] \<or>
         loadPromise s = Some 0 \<and> promises s \<noteq> []) \<and>
        (case pdfjsLib s of
           None \<Rightarrow>
             (\<forall>lib. promises s \<noteq> [Fulfilled lib]) \<and> filter is_SetWorkerSrc (calls s) = []
         | Some lib \<Rightarrow>
             promises s = [Fulfilled lib] \<and> length (filter is_SetWorkerSrc (calls s)) = 1) \<and>
        (\<forall>r \<in> set rs. r = Awaits 0 \<and> promises s \<noteq> [] \<or>
                        (\<exists>lib. r = Immediate lib \<and> pdfjsLib s = Some lib)))"

subsection \<open>Sample inputs\<close>

text \<open>A one-page document of US Letter size, an engine that parses any bytes to it.\<close>

definition sample_page :: pdf_page where
  "sample_page = \<lparr>native_width = 612, native_height = 792, render_promise = Returns ()\<rparr>"

definition sample_document :: pdf_document where
  "sample_document = \<lparr>doc_pages = [Returns sample_page]\<rparr>"

definition sample_engine :: pdfjs_module where
  "sample_engine = \<lparr>getDocument = (\<lambda>_. Returns sample_document), workerSrc = None\<rparr>"

text \<open>A one-page document of size A4, 595.276 by 841.89 points, and its engine.\<close>

definition a4_page :: pdf_page where
  "a4_page = \<lparr>native_width = 148819 / 250, native_height = 84189 / 100,
              render_promise = Returns ()\<rparr>"

definition a4_engine :: pdfjs_module where
  "a4_engine = \<lparr>getDocument = (\<lambda>_. Returns \<lparr>doc_pages = [Returns a4_page]\<rparr>),
                workerSrc = None\<rparr>"

text \<open>A browser in which every step succeeds, and variations of it.\<close>

definition browser :: host where
  "browser =
     \<lparr>has_window = True, engine_import = Returns sample_engine,
      worker_import = Returns (Module (Some ''/assets/pdf.worker.min.mjs'')),
      createElement_canvas = Returns (), getContext_2d = Returns True,
      toBlob_callback = Returns (Some [137, 80, 78, 71]),
      createObjectURL_id = Returns ''http://localhost/0b1c''\<rparr>"

definition a4_browser :: host where
  "a4_browser = browser\<lparr>engine_import := Returns a4_engine\<rparr>"

definition server :: host where
  "server = browser\<lparr>has_window := False\<rparr>"

definition browser_without_engine :: host where
  "browser_without_engine =
     browser\<lparr>engine_import := Throws (ErrorObject ''TypeError'' ''Failed to fetch'')\<rparr>"

definition browser_with_silent_failure :: host where
  "browser_with_silent_failure = browser\<lparr>engine_import := Throws (ErrorObject ''Error'' [])\<rparr>"

definition browser_without_canvas :: host where
  "browser_without_canvas = browser\<lparr>getContext_2d := Returns False\<rparr>"

definition other_browser :: host where
  "other_browser =
     browser\<lparr>toBlob_callback := Returns (Some [137, 80, 78, 71, 13]),
             createObjectURL_id := Returns ''http://localhost/77aa''\<rparr>"

definition resume_pdf :: source_file where
  "resume_pdf = \<lparr>name = ''resume.PDF'', arrayBuffer = Returns [37, 80, 68, 70]\<rparr>"

definition notes_txt :: source_file where
  "notes_txt = \<lparr>name = ''notes.txt'', arrayBuffer = Returns [104, 105]\<rparr>"

definition dot_pdf :: source_file where
  "dot_pdf = \<lparr>name = ''.pdf'', arrayBuffer = Returns [37, 80, 68, 70]\<rparr>"

definition a_pdf_pdf :: source_file where
  "a_pdf_pdf = \<lparr>name = ''a.pdf.pdf'', arrayBuffer = Returns [37, 80, 68, 70]\<rparr>"

text \<open>
  Two calls while the engine import is pending, a third while the worker's location is
  being resolved, a fourth after the engine is ready.
\<close>

definition sample_events :: "event list" where
  "sample_events =
     [CallLoadPdfJs, CallLoadPdfJs, EngineImportSettles 0 (Returns sample_engine),
      CallLoadPdfJs, WorkerImportSettles 0 (Throws (ErrorObject ''Error'' ''no asset'')),
      CallLoadPdfJs]"

text \<open>The engine once its worker location is set, and the state a first conversion leaves.\<close>

definition ready_engine :: pdfjs_module where
  "ready_engine = sample_engine\<lparr>workerSrc := Some ''/assets/pdf.worker.min.mjs''\<rparr>"

definition ready_state :: module_state where
  "ready_state =
     \<lparr>pdfjsLib = Some ready_engine, loadPromise = Some 0, promises = [Fulfilled ready_engine],
      calls = [ImportEngine, ImportWorker, SetWorkerSrc ''/assets/pdf.worker.min.mjs'']\<rparr>"

definition fallback_engine :: pdfjs_module where
  "fallback_engine = sample_engine\<lparr>workerSrc := Some ''/pdf.worker.min.mjs''\<rparr>"

lemmas regex_defs =
  pdf_regex_test_def pdf_regex_replace_def pdf_here_def ci_eq_def canonicalize_def

lemmas load_defs =
  loadPdfJs_def loadPdfJs_call_def engine_import_settles_def worker_import_settles_def
  promise_outcome_def getWorkerUrl_def initial_state_def

lemmas path_defs =
  main_path_def await_def engine_def host_call_def returns_def toBlob_def
  createObjectURL_def getViewport_def getPage_def canvas_dimension_def to_unsigned_long_def

lemmas sample_defs =
  sample_page_def sample_document_def sample_engine_def browser_def server_def
  browser_without_engine_def browser_with_silent_failure_def browser_without_canvas_def
  other_browser_def resume_pdf_def notes_txt_def dot_pdf_def a_pdf_pdf_def

lemmas eval_defs =
  convertPdfToImage_def sample_defs regex_defs load_defs path_defs Let_def char_of_eq_iff

lemmas ready_defs = ready_engine_def ready_state_def

lemmas a4_defs = a4_page_def a4_engine_def a4_browser_def

section \<open>Properties\<close>

subsection \<open>The regular expression\<close>

lemma pdf_here_length: "pdf_here s \<Longrightarrow> length s = 4"
  by (auto simp: pdf_here_def dest: list_all2_lengthD)

lemma pdf_regex_exec_append:
  "pdf_here suf \<Longrightarrow> pdf_regex_exec (stem @ suf) = Some (length stem)"
proof (induction stem)
  case Nil
  then show ?case by (cases suf) (auto simp: pdf_here_def)
next
  case (Cons c stem)
  have "\<not> pdf_here (c # stem @ suf)"
    using pdf_here_length [of "c # stem @ suf"] pdf_here_length [OF Cons.prems] by auto
  with Cons show ?case by simp
qed

lemma pdf_regex_exec_Some:
  "pdf_regex_exec s = Some i \<Longrightarrow> i + 4 = length s \<and> pdf_here (drop i s)"
proof (induction s arbitrary: i)
  case Nil
  then show ?case by (simp add: pdf_here_def)
next
  case (Cons c cs)
  show ?case
  proof (cases "pdf_here (c # cs)")
    case True
    with Cons.prems have "i = 0" by simp
    with True show ?thesis using pdf_here_length [OF True] by simp
  next
    case False
    with Cons.prems obtain j where "pdf_regex_exec cs = Some j" "i = Suc j" by auto
    with Cons.IH [of j] show ?thesis by simp
  qed
qed

lemma pdf_regex_test_iff:
  "pdf_regex_test s \<longleftrightarrow> (\<exists>stem suf. s = stem @ suf \<and> pdf_here suf)"
proof
  assume "pdf_regex_test s"
  then obtain i where i: "pdf_regex_exec s = Some i" by (auto simp: pdf_regex_test_def)
  from pdf_regex_exec_Some [OF i] have "s = take i s @ drop i s \<and> pdf_here (drop i s)" by simp
  then show "\<exists>stem suf. s = stem @ suf \<and> pdf_here suf" by blast
next
  assume "\<exists>stem suf. s = stem @ suf \<and> pdf_here suf"
  then show "pdf_regex_test s" by (auto simp: pdf_regex_test_def pdf_regex_exec_append)
qed

lemma pdf_regex_replace_append:
  "pdf_here suf \<Longrightarrow> pdf_regex_replace (stem @ suf) = stem"
  using pdf_here_length [of suf] by (simp add: pdf_regex_replace_def pdf_regex_exec_append)

lemma of_char_canonicalize:
  "(of_char (canonicalize c) :: nat) =
     (if 97 \<le> (of_char c :: nat) \<and> (of_char c :: nat) \<le> 122 then of_char c - 32
      else of_char c)"
proof -
  have small: "(of_char c - 32 :: nat) mod 256 = of_char c - 32"
    by (intro mod_less) (simp add: less_imp_diff_less)
  show ?thesis by (simp add: canonicalize_def Let_def small)
qed

lemma char_eq_code: "c = d \<longleftrightarrow> (of_char c :: nat) = of_char d"
  by simp

lemma canonicalize_eq_dot: "canonicalize c = CHR ''.'' \<longleftrightarrow> c = CHR ''.''"
  unfolding char_eq_code [of _ "CHR ''.''"] of_char_canonicalize by auto

lemma canonicalize_eq_P: "canonicalize c = CHR ''P'' \<longleftrightarrow> c = CHR ''p'' \<or> c = CHR ''P''"
  unfolding char_eq_code [of _ "CHR ''P''"] char_eq_code [of _ "CHR ''p''"] of_char_canonicalize
  by auto

lemma canonicalize_eq_D: "canonicalize c = CHR ''D'' \<longleftrightarrow> c = CHR ''d'' \<or> c = CHR ''D''"
  unfolding char_eq_code [of _ "CHR ''D''"] char_eq_code [of _ "CHR ''d''"] of_char_canonicalize
  by auto

lemma canonicalize_eq_F: "canonicalize c = CHR ''F'' \<longleftrightarrow> c = CHR ''f'' \<or> c = CHR ''F''"
  unfolding char_eq_code [of _ "CHR ''F''"] char_eq_code [of _ "CHR ''f''"] of_char_canonicalize
  by auto

lemma pdf_here_iff:
  "pdf_here suf \<longleftrightarrow>
     (\<exists>p d f. suf = [CHR ''.'', p, d, f] \<and> (p = CHR ''p'' \<or> p = CHR ''P'') \<and>
        (d = CHR ''d'' \<or> d = CHR ''D'') \<and> (f = CHR ''f'' \<or> f = CHR ''F''))"
proof -
  have c: "canonicalize CHR ''.'' = CHR ''.''" "canonicalize CHR ''p'' = CHR ''P''"
    "canonicalize CHR ''d'' = CHR ''D''" "canonicalize CHR ''f'' = CHR ''F''"
    by (simp_all add: canonicalize_def char_of_eq_iff)
  have "pdf_here suf \<longleftrightarrow>
     (\<exists>a p d f. suf = [a, p, d, f] \<and> canonicalize a = CHR ''.'' \<and>
        canonicalize p = CHR ''P'' \<and> canonicalize d = CHR ''D'' \<and> canonicalize f = CHR ''F'')"
    by (auto simp: pdf_here_def ci_eq_def c list_all2_Cons1)
  then show ?thesis
    by (simp add: canonicalize_eq_dot canonicalize_eq_P canonicalize_eq_D canonicalize_eq_F)
qed

lemma pdf_here_spellings:
  "pdf_here suf \<longleftrightarrow>
     suf \<in> set [''.pdf'', ''.pdF'', ''.pDf'', ''.pDF'', ''.Pdf'', ''.PdF'', ''.PDf'', ''.PDF'']"
  unfolding pdf_here_iff by auto

lemma pdf_regex_test_ends:
  "pdf_regex_test s \<longleftrightarrow> ends_in_pdf_ignoring_case s"
proof
  assume "pdf_regex_test s"
  then obtain stem suf where s: "s = stem @ suf" and suf: "pdf_here suf"
    by (auto simp: pdf_regex_test_iff)
  from suf have "length suf = 4" by (rule pdf_here_length)
  with s have "4 \<le> length s" "drop (length s - 4) s = suf" by simp_all
  with suf show "ends_in_pdf_ignoring_case s"
    unfolding ends_in_pdf_ignoring_case_def pdf_here_spellings by simp
next
  assume e: "ends_in_pdf_ignoring_case s"
  then have "pdf_here (drop (length s - 4) s)"
    unfolding ends_in_pdf_ignoring_case_def pdf_here_spellings by simp
  moreover have "s = take (length s - 4) s @ drop (length s - 4) s" by simp
  ultimately show "pdf_regex_test s"
    unfolding pdf_regex_test_iff by blast
qed

subsection \<open>The loader\<close>

lemma loadPdfJs_again:
  assumes "loadPdfJs h s = (s1, Returns lib)"
  shows "loadPdfJs h2 (s1\<lparr>calls := c\<rparr>) = (s1\<lparr>calls := c\<rparr>, Returns lib)"
proof (cases "pdfjsLib s")
  case (Some lib0)
  with assms have "s1 = s" "lib = lib0"
    by (simp_all add: loadPdfJs_def loadPdfJs_call_def)
  with Some show ?thesis
    by (simp add: loadPdfJs_def loadPdfJs_call_def)
next
  case None
  show ?thesis
  proof (cases "loadPromise s")
    case (Some p)
    with None assms show ?thesis
      unfolding loadPdfJs_def loadPdfJs_call_def engine_import_settles_def
        worker_import_settles_def promise_outcome_def Let_def
      by (auto split: if_splits load_promise.splits outcome.splits)
  next
    case n: None
    with None assms show ?thesis
      unfolding loadPdfJs_def loadPdfJs_call_def engine_import_settles_def
        worker_import_settles_def promise_outcome_def Let_def
      by (auto split: if_splits load_promise.splits outcome.splits)
  qed
qed

lemma single_flight_initial: "single_flight (initial_state, [])"
  by (simp add: single_flight_def initial_state_def)

lemma single_flight_call:
  assumes "single_flight (s, rs)" "loadPdfJs_call s = (s', r)"
  shows "single_flight (s', rs @ [r])"
  using assms unfolding single_flight_def loadPdfJs_call_def Let_def
  by (auto split: option.splits simp: is_SetWorkerSrc_def)

lemma single_flight_engine:
  assumes "single_flight (s, rs)"
  shows "single_flight (engine_import_settles p imp s, rs)"
  using assms unfolding single_flight_def engine_import_settles_def
  by (cases "promises s") (auto split: option.splits load_promise.splits outcome.splits simp: is_SetWorkerSrc_def)

lemma single_flight_worker:
  assumes "single_flight (s, rs)"
  shows "single_flight (worker_import_settles p imp s, rs)"
  using assms unfolding single_flight_def worker_import_settles_def Let_def
  by (cases "promises s") (auto split: option.splits load_promise.splits outcome.splits simp: is_SetWorkerSrc_def)

lemma single_flight_step: "single_flight c \<Longrightarrow> single_flight (step e c)"
  by (cases c; cases e)
     (auto intro: single_flight_call single_flight_engine single_flight_worker split: prod.splits)

lemma single_flight_run: "single_flight c \<Longrightarrow> single_flight (run es c)"
proof (induction es arbitrary: c)
  case Nil
  then show ?case by simp
next
  case (Cons e es)
  from Cons.prems have "single_flight (step e c)" by (rule single_flight_step)
  then have "single_flight (run es (step e c))" by (rule Cons.IH)
  then show ?case by simp
qed

lemma getWorkerUrl_settles: "w \<noteq> Never \<Longrightarrow> \<exists>u. getWorkerUrl w = Returns u"
  by (auto simp: getWorkerUrl_def split: outcome.splits worker_module.splits option.splits)

lemma single_flight_resolved:
  assumes inv: "single_flight (s, rs)" and lib: "pdfjsLib s = Some lib" and r: "r \<in> set rs"
  shows "resolves_to s r = Some lib"
proof -
  from inv lib have p: "promises s = [Fulfilled lib]"
    by (simp add: single_flight_def)
  from inv r have "r = Awaits 0 \<or> (\<exists>lib'. r = Immediate lib' \<and> pdfjsLib s = Some lib')"
    by (auto simp: single_flight_def)
  with lib p show ?thesis
    by (auto simp: promise_outcome_def)
qed

lemma single_flight_settles:
  assumes inv: "single_flight (s, rs)" and rs: "rs \<noteq> []" and w: "w \<noteq> Never"
    and ok: "\<forall>e. promises s \<noteq> [Rejected e]"
  shows "\<exists>lib. pdfjsLib (worker_import_settles 0 w (engine_import_settles 0 (Returns m) s)) = Some lib"
proof -
  from rs obtain r where r: "r \<in> set rs" by (cases rs) auto
  from inv have len: "length (promises s) \<le> 1"
    and lib_inv: "case pdfjsLib s of
           None \<Rightarrow> (\<forall>lib. promises s \<noteq> [Fulfilled lib]) \<and> filter is_SetWorkerSrc (calls s) = []
         | Some lib \<Rightarrow> promises s = [Fulfilled lib] \<and> length (filter is_SetWorkerSrc (calls s)) = 1"
    and rets: "\<forall>r \<in> set rs. r = Awaits 0 \<and> promises s \<noteq> [] \<or>
                        (\<exists>lib. r = Immediate lib \<and> pdfjsLib s = Some lib)"
    by (simp_all add: single_flight_def)
  from rets r lib_inv have "promises s \<noteq> []" by auto
  with len obtain q where q: "promises s = [q]"
    by (cases "promises s") auto
  from w obtain u where u: "getWorkerUrl w = Returns u"
    using getWorkerUrl_settles by blast
  show ?thesis
  proof (cases q)
    case AwaitingImport
    with q u show ?thesis
      by (simp add: engine_import_settles_def worker_import_settles_def Let_def)
  next
    case (AwaitingWorkerUrl m0)
    with q u show ?thesis
      by (simp add: engine_import_settles_def worker_import_settles_def Let_def)
  next
    case (Fulfilled lib)
    with q lib_inv have "pdfjsLib s = Some lib" by (cases "pdfjsLib s") auto
    with q Fulfilled show ?thesis
      by (simp add: engine_import_settles_def worker_import_settles_def)
  next
    case (Rejected e)
    with q ok show ?thesis by simp
  qed
qed

subsection \<open>The size of the canvas\<close>

lemma canvas_dimension_floor:
  assumes "0 \<le> x" "x < 2147483648"
  shows "canvas_dimension d x = nat \<lfloor>x\<rfloor>"
proof -
  from assms(1) have lo: "0 \<le> \<lfloor>x\<rfloor>" by simp
  from assms(2) have hi: "\<lfloor>x\<rfloor> < 2147483648" by (simp add: floor_less_iff)
  from lo hi have m: "\<lfloor>x\<rfloor> mod 4294967296 = \<lfloor>x\<rfloor>" by simp
  from lo hi have n: "nat \<lfloor>x\<rfloor> \<le> 2147483647" by linarith
  from assms(1) have "to_unsigned_long x = nat \<lfloor>x\<rfloor>"
    by (simp add: to_unsigned_long_def m)
  with n show ?thesis
    by (simp add: canvas_dimension_def Let_def)
qed

lemma a4_floors: "\<lfloor>446457 / 250 :: rat\<rfloor> = 1785" "\<lfloor>252567 / 100 :: rat\<rfloor> = 2525"
  by (simp_all add: floor_eq_iff)

subsection \<open>The main path and the conversion\<close>

lemma getPage_first:
  "getPage pdf 1 = Returns page \<Longrightarrow> doc_pages pdf \<noteq> [] \<and> doc_pages pdf ! 0 = Returns page"
  by (auto simp: getPage_def split: if_splits)

lemma main_path_Returns:
  assumes "main_path h f s = (s', Returns r)"
  shows "\<exists>s1 lib buf pdf page.
           loadPdfJs h s = (s1, Returns lib) \<and> arrayBuffer f = Returns buf \<and>
           getDocument lib buf = Returns pdf \<and> getPage pdf 1 = Returns page \<and>
           createElement_canvas h = Returns () \<and>
           ((getContext_2d h = Returns False \<and>
             s' = s1\<lparr>calls := calls s1 @ [GetDocument buf, GetPage 1, GetViewport 3]\<rparr> \<and>
             r = \<lparr>imageUrl = [], imageFile = None,
                   error = Some ''Unable to get 2D canvas context.''\<rparr>) \<or>
            (getContext_2d h = Returns True \<and> render_promise page = Returns () \<and>
             s' = s1\<lparr>calls := calls s1 @ [GetDocument buf, GetPage 1, GetViewport 3,
                                             Render (getViewport page 3)]\<rparr> \<and>
             (toBlob_callback h = Returns None \<and>
              r = \<lparr>imageUrl = [], imageFile = None,
                    error = Some ''Failed to create image blob from canvas.''\<rparr> \<or>
              (\<exists>d u. toBlob_callback h = Returns (Some d) \<and>
                 createObjectURL_id h = Returns u \<and>
                 r = \<lparr>imageUrl = ''blob:'' @ u,
                       imageFile = Some \<lparr>file_name = pdf_regex_replace (name f) @ ''.png'',
                          file_type = ''image/png'',
                          file_blob = \<lparr>blob_width = canvas_dimension 300 (3 * native_width page),
                             blob_height = canvas_dimension 150 (3 * native_height page), blob_data = d\<rparr>\<rparr>,
                       error = None\<rparr>))))"
  using assms
  unfolding main_path_def await_def engine_def host_call_def returns_def toBlob_def
    createObjectURL_def getViewport_def Let_def
  by (auto split: prod.splits outcome.splits if_splits option.splits)

lemma main_path_shape:
  assumes "main_path h f s = (s', Returns r)"
  shows "imageUrl r \<noteq> [] \<and> imageFile r \<noteq> None \<and> error r = None \<or>
         error r \<noteq> None \<and> imageUrl r = [] \<and> imageFile r = None"
  using main_path_Returns [OF assms] by auto

lemma main_path_Throws_sources:
  "snd (loadPdfJs h s) = Throws e \<Longrightarrow> snd (main_path h f s) = Throws e"
  "snd (loadPdfJs h s) = Returns lib \<Longrightarrow> arrayBuffer f = Throws e \<Longrightarrow>
     snd (main_path h f s) = Throws e"
  "snd (loadPdfJs h s) = Returns lib \<Longrightarrow> arrayBuffer f = Returns buf \<Longrightarrow>
     getDocument lib buf = Throws e \<Longrightarrow> snd (main_path h f s) = Throws e"
  "snd (loadPdfJs h s) = Returns lib \<Longrightarrow> arrayBuffer f = Returns buf \<Longrightarrow>
     getDocument lib buf = Returns pdf \<Longrightarrow> getPage pdf 1 = Throws e \<Longrightarrow>
     snd (main_path h f s) = Throws e"
  "snd (loadPdfJs h s) = Returns lib \<Longrightarrow> arrayBuffer f = Returns buf \<Longrightarrow>
     getDocument lib buf = Returns pdf \<Longrightarrow> getPage pdf 1 = Returns page \<Longrightarrow>
     createElement_canvas h = Throws e \<Longrightarrow> snd (main_path h f s) = Throws e"
  "snd (loadPdfJs h s) = Returns lib \<Longrightarrow> arrayBuffer f = Returns buf \<Longrightarrow>
     getDocument lib buf = Returns pdf \<Longrightarrow> getPage pdf 1 = Returns page \<Longrightarrow>
     createElement_canvas h = Returns () \<Longrightarrow> getContext_2d h = Returns True \<Longrightarrow>
     render_promise page = Throws e \<Longrightarrow> snd (main_path h f s) = Throws e"
  "snd (loadPdfJs h s) = Returns lib \<Longrightarrow> arrayBuffer f = Returns buf \<Longrightarrow>
     getDocument lib buf = Returns pdf \<Longrightarrow> getPage pdf 1 = Returns page \<Longrightarrow>
     createElement_canvas h = Returns () \<Longrightarrow> getContext_2d h = Returns True \<Longrightarrow>
     render_promise page = Returns () \<Longrightarrow> toBlob_callback h = Throws e \<Longrightarrow>
     snd (main_path h f s) = Throws e"
  "snd (loadPdfJs h s) = Returns lib \<Longrightarrow> arrayBuffer f = Returns buf \<Longrightarrow>
     getDocument lib buf = Returns pdf \<Longrightarrow> getPage pdf 1 = Returns page \<Longrightarrow>
     createElement_canvas h = Returns () \<Longrightarrow> getContext_2d h = Returns True \<Longrightarrow>
     render_promise page = Returns () \<Longrightarrow> toBlob_callback h = Returns (Some d) \<Longrightarrow>
     createObjectURL_id h = Throws e \<Longrightarrow> snd (main_path h f s) = Throws e"
  unfolding main_path_def await_def engine_def host_call_def returns_def toBlob_def
    createObjectURL_def Let_def
  by (cases "loadPdfJs h s"; simp)+

lemma main_path_success:
  assumes "loadPdfJs h s = (s1, Returns lib)" "arrayBuffer f = Returns buf"
    "getDocument lib buf = Returns pdf" "getPage pdf 1 = Returns page"
    "createElement_canvas h = Returns ()" "getContext_2d h = Returns True"
    "render_promise page = Returns ()" "toBlob_callback h = Returns (Some d)"
    "createObjectURL_id h = Returns u"
  shows "main_path h f s =
           (s1\<lparr>calls := calls s1 @ [GetDocument buf, GetPage 1, GetViewport 3,
                                       Render (getViewport page 3)]\<rparr>,
            Returns \<lparr>imageUrl = ''blob:'' @ u,
                     imageFile = Some \<lparr>file_name = pdf_regex_replace (name f) @ ''.png'',
                        file_type = ''image/png'',
                        file_blob = \<lparr>blob_width = canvas_dimension 300 (3 * native_width page),
                           blob_height = canvas_dimension 150 (3 * native_height page), blob_data = d\<rparr>\<rparr>,
                     error = None\<rparr>)"
  using assms
  unfolding main_path_def await_def engine_def host_call_def returns_def toBlob_def
    createObjectURL_def getViewport_def Let_def
  by simp

lemma main_path_without_context:
  assumes "loadPdfJs h s = (s1, Returns lib)" "arrayBuffer f = Returns buf"
    "getDocument lib buf = Returns pdf" "getPage pdf 1 = Returns page"
    "createElement_canvas h = Returns ()" "getContext_2d h = Returns False"
  shows "main_path h f s =
           (s1\<lparr>calls := calls s1 @ [GetDocument buf, GetPage 1, GetViewport 3]\<rparr>,
            Returns \<lparr>imageUrl = [], imageFile = None,
                     error = Some ''Unable to get 2D canvas context.''\<rparr>)"
  using assms
  unfolding main_path_def await_def engine_def host_call_def returns_def Let_def
  by simp

lemma convertPdfToImage_Returns:
  assumes "convertPdfToImage h file_arg s = (s', Returns r)"
  shows "(error r \<noteq> None \<and> imageUrl r = [] \<and> imageFile r = None) \<or>
         (\<exists>f. file_arg = Some f \<and> has_window h \<and> pdf_regex_test (name f) \<and>
              main_path h f s = (s', Returns r))"
  using assms unfolding convertPdfToImage_def
  by (auto split: if_splits option.splits prod.splits outcome.splits)

lemma convertPdfToImage_main_path:
  assumes "has_window h" "pdf_regex_test (name f)" "main_path h f s = (s', Returns r)"
  shows "convertPdfToImage h (Some f) s = (s', Returns r)"
  using assms by (simp add: convertPdfToImage_def)

lemma convertPdfToImage_success:
  assumes "convertPdfToImage h (Some f) s = (s', Returns r)" "error r = None"
  shows "\<exists>s1 lib buf pdf page d u.
           has_window h \<and> pdf_regex_test (name f) \<and>
           loadPdfJs h s = (s1, Returns lib) \<and> arrayBuffer f = Returns buf \<and>
           getDocument lib buf = Returns pdf \<and> getPage pdf 1 = Returns page \<and>
           createElement_canvas h = Returns () \<and> getContext_2d h = Returns True \<and>
           render_promise page = Returns () \<and>
           toBlob_callback h = Returns (Some d) \<and> createObjectURL_id h = Returns u \<and>
           s' = s1\<lparr>calls := calls s1 @ [GetDocument buf, GetPage 1, GetViewport 3,
                                           Render (getViewport page 3)]\<rparr> \<and>
           r = \<lparr>imageUrl = ''blob:'' @ u,
                 imageFile = Some \<lparr>file_name = pdf_regex_replace (name f) @ ''.png'',
                    file_type = ''image/png'',
                    file_blob = \<lparr>blob_width = canvas_dimension 300 (3 * native_width page),
                       blob_height = canvas_dimension 150 (3 * native_height page), blob_data = d\<rparr>\<rparr>,
                 error = None\<rparr>"
proof -
  from convertPdfToImage_Returns [OF assms(1)] assms(2)
  have w: "has_window h" and t: "pdf_regex_test (name f)"
    and m: "main_path h f s = (s', Returns r)" by auto
  from main_path_Returns [OF m] assms(2) w t show ?thesis by auto
qed

subsection \<open>The sample inputs\<close>

lemma loadPdfJs_browser: "loadPdfJs browser initial_state = (ready_state, Returns ready_engine)"
  by (simp add: eval_defs ready_defs)

lemma loadPdfJs_browser_without_canvas:
  "loadPdfJs browser_without_canvas initial_state = (ready_state, Returns ready_engine)"
  by (simp add: eval_defs ready_defs)

lemma sample_steps:
  "getDocument ready_engine buf = Returns sample_document"
  "getPage sample_document 1 = Returns sample_page"
  "render_promise sample_page = Returns ()"
  "getViewport sample_page 3 = \<lparr>width = 1836, height = 2376\<rparr>"
  "native_width sample_page = 612" "native_height sample_page = 792"
  by (simp_all add: eval_defs ready_defs)

lemma browser_fields:
  "has_window browser" "createElement_canvas browser = Returns ()"
  "getContext_2d browser = Returns True"
  "toBlob_callback browser = Returns (Some [137, 80, 78, 71])"
  "createObjectURL_id browser = Returns ''http://localhost/0b1c''"
  "has_window browser_without_canvas" "createElement_canvas browser_without_canvas = Returns ()"
  "getContext_2d browser_without_canvas = Returns False"
  by (simp_all add: sample_defs)

lemma convert_resume:
  "convertPdfToImage browser (Some resume_pdf) initial_state =
     (ready_state\<lparr>calls := calls ready_state @
         [GetDocument [37, 80, 68, 70], GetPage 1, GetViewport 3,
          Render \<lparr>width = 1836, height = 2376\<rparr>]\<rparr>,
      Returns \<lparr>imageUrl = ''blob:http://localhost/0b1c'',
               imageFile = Some \<lparr>file_name = ''resume.png'', file_type = ''image/png'',
                  file_blob = \<lparr>blob_width = 1836, blob_height = 2376,
                               blob_data = [137, 80, 78, 71]\<rparr>\<rparr>,
               error = None\<rparr>)"
  by (simp add: eval_defs ready_defs)

subsection \<open>The shape of results\<close>

text \<open>
  C1. Every result that convertPdfToImage returns has exactly one of two shapes: a
  non-empty imageUrl, a file and no error field; or an error, the empty imageUrl and no
  file.
\<close>

theorem result_has_exactly_one_shape:
  assumes "convertPdfToImage h file_arg s = (s', Returns r)"
  shows "((imageUrl r \<noteq> [] \<and> imageFile r \<noteq> None \<and> error r = None) \<or>
          (error r \<noteq> None \<and> imageUrl r = [] \<and> imageFile r = None)) \<and>
         \<not> ((imageUrl r \<noteq> [] \<and> imageFile r \<noteq> None \<and> error r = None) \<and>
            (error r \<noteq> None \<and> imageUrl r = [] \<and> imageFile r = None))"
  using convertPdfToImage_Returns [OF assms] main_path_shape [of h _ s s' r] by auto

theorem result_has_exactly_one_shape_witness:
  "convertPdfToImage browser (Some resume_pdf) initial_state =
     (ready_state\<lparr>calls := calls ready_state @
         [GetDocument [37, 80, 68, 70], GetPage 1, GetViewport 3,
          Render \<lparr>width = 1836, height = 2376\<rparr>]\<rparr>,
      Returns \<lparr>imageUrl = ''blob:http://localhost/0b1c'',
               imageFile = Some \<lparr>file_name = ''resume.png'', file_type = ''image/png'',
                  file_blob = \<lparr>blob_width = 1836, blob_height = 2376,
                               blob_data = [137, 80, 78, 71]\<rparr>\<rparr>,
               error = None\<rparr>) \<and>
   ''blob:http://localhost/0b1c'' \<noteq> [] \<and>
   convertPdfToImage browser (Some notes_txt) initial_state =
     (initial_state, Returns \<lparr>imageUrl = [], imageFile = None,
                              error = Some ''Please provide a valid .pdf file.''\<rparr>)"
proof -
  have n: "convertPdfToImage browser (Some notes_txt) initial_state =
     (initial_state, Returns \<lparr>imageUrl = [], imageFile = None,
                              error = Some ''Please provide a valid .pdf file.''\<rparr>)"
    by (simp add: eval_defs)
  from result_has_exactly_one_shape [OF convert_resume] result_has_exactly_one_shape [OF n]
    convert_resume n
  show ?thesis by simp
qed

subsection \<open>Exceptions\<close>

text \<open>
  C2, as stated, fails: an Error object with the empty message, thrown by the engine
  import, has the message \<open>[]\<close>, and the result's text ends in the error's name instead.
\<close>

theorem error_text_is_not_the_message_counterexample:
  "snd (main_path browser_with_silent_failure resume_pdf initial_state) =
     Throws (ErrorObject ''Error'' []) \<and>
   err_message (ErrorObject ''Error'' []) = Some [] \<and>
   snd (convertPdfToImage browser_with_silent_failure (Some resume_pdf) initial_state) =
     Returns \<lparr>imageUrl = [], imageFile = None,
              error = Some ''Failed to convert PDF: Error''\<rparr> \<and>
   snd (convertPdfToImage browser_with_silent_failure (Some resume_pdf) initial_state) \<noteq>
     Returns \<lparr>imageUrl = [], imageFile = None,
              error = Some (''Failed to convert PDF: '' @ [])\<rparr>"
  by (simp add: eval_defs caught_message_def)

text \<open>
  C2, amended. No exception escapes convertPdfToImage, and an exception raised in the
  main path becomes the result with the empty imageUrl, no file and the error
  \<^verbatim>\<open>Failed to convert PDF: \<close> followed by the thrown value's message when it has a non-empty
  one, and by the thrown value converted to a string otherwise.
\<close>

theorem exceptions_become_results:
  "snd (convertPdfToImage h file_arg s) \<noteq> Throws e \<and>
   (has_window h \<and> pdf_regex_test (name f) \<and> main_path h f s = (s', Throws err) \<longrightarrow>
      convertPdfToImage h (Some f) s =
        (s', Returns \<lparr>imageUrl = [], imageFile = None,
                      error = Some (''Failed to convert PDF: '' @
                        (case err_message err of
                           Some m \<Rightarrow> if m \<noteq> [] then m else js_String err
                         | None \<Rightarrow> js_String err))\<rparr>))"
  unfolding convertPdfToImage_def caught_message_def
  by (auto split: option.splits prod.splits outcome.splits)

theorem exceptions_become_results_witness:
  "has_window browser_without_engine \<and> pdf_regex_test (name resume_pdf) \<and>
   main_path browser_without_engine resume_pdf initial_state =
     (\<lparr>pdfjsLib = None, loadPromise = Some 0,
       promises = [Rejected (ErrorObject ''TypeError'' ''Failed to fetch'')],
       calls = [ImportEngine]\<rparr>,
      Throws (ErrorObject ''TypeError'' ''Failed to fetch'')) \<and>
   convertPdfToImage browser_without_engine (Some resume_pdf) initial_state =
     (\<lparr>pdfjsLib = None, loadPromise = Some 0,
       promises = [Rejected (ErrorObject ''TypeError'' ''Failed to fetch'')],
       calls = [ImportEngine]\<rparr>,
      Returns \<lparr>imageUrl = [], imageFile = None,
               error = Some ''Failed to convert PDF: Failed to fetch''\<rparr>)"
proof -
  have w: "has_window browser_without_engine" and t: "pdf_regex_test (name resume_pdf)"
    and m: "main_path browser_without_engine resume_pdf initial_state =
     (\<lparr>pdfjsLib = None, loadPromise = Some 0,
       promises = [Rejected (ErrorObject ''TypeError'' ''Failed to fetch'')],
       calls = [ImportEngine]\<rparr>,
      Throws (ErrorObject ''TypeError'' ''Failed to fetch''))"
    by (simp_all add: eval_defs)
  from exceptions_become_results [of browser_without_engine None initial_state ThrownNull
      resume_pdf _ "ErrorObject ''TypeError'' ''Failed to fetch''"] w t m
  show ?thesis by simp
qed

subsection \<open>The guards\<close>

text \<open>
  C3, as stated, fails: outside a browser the missing file is answered with the
  environment's error, not with the message about the file.
\<close>

theorem invalid_file_message_counterexample:
  "snd (convertPdfToImage server None initial_state) =
     Returns \<lparr>imageUrl = [], imageFile = None,
              error = Some ''PDF conversion is only available in the browser.''\<rparr> \<and>
   snd (convertPdfToImage server None initial_state) \<noteq>
     Returns \<lparr>imageUrl = [], imageFile = None,
              error = Some ''Please provide a valid .pdf file.''\<rparr>"
  by (simp add: eval_defs)

text \<open>
  C3, amended. For every file argument that is null or undefined, or whose name does not
  end in \<^verbatim>\<open>.pdf\<close> (letters in either case), convertPdfToImage returns an error result with
  no file and the empty imageUrl and leaves the module's state, with its list of engine
  calls, as it was; the message is \<^verbatim>\<open>Please provide a valid .pdf file.\<close> where a window
  exists, and the environment's error where none does.
\<close>

theorem invalid_file_is_rejected:
  assumes "case file_arg of None \<Rightarrow> True | Some f \<Rightarrow> \<not> ends_in_pdf_ignoring_case (name f)"
  shows "convertPdfToImage h file_arg s =
           (s, Returns \<lparr>imageUrl = [], imageFile = None,
                        error = Some (if has_window h then ''Please provide a valid .pdf file.''
                                      else ''PDF conversion is only available in the browser.'')\<rparr>)"
  using assms unfolding convertPdfToImage_def pdf_regex_test_ends
  by (auto split: option.splits)

theorem invalid_file_is_rejected_witness:
  "\<not> ends_in_pdf_ignoring_case (name notes_txt) \<and>
   convertPdfToImage browser (Some notes_txt) initial_state =
     (initial_state, Returns \<lparr>imageUrl = [], imageFile = None,
                              error = Some ''Please provide a valid .pdf file.''\<rparr>) \<and>
   convertPdfToImage browser None initial_state =
     (initial_state, Returns \<lparr>imageUrl = [], imageFile = None,
                              error = Some ''Please provide a valid .pdf file.''\<rparr>)"
proof -
  have n: "\<not> ends_in_pdf_ignoring_case (name notes_txt)"
    by (simp add: ends_in_pdf_ignoring_case_def notes_txt_def)
  have b: "has_window browser" by (simp add: browser_def)
  from invalid_file_is_rejected [of "Some notes_txt" browser initial_state]
    invalid_file_is_rejected [of None browser initial_state] n b
  show ?thesis by simp
qed

text \<open>
  C4. Where no window exists, convertPdfToImage returns the environment's error result
  at once, whatever the file argument is, valid or not: the check comes before the
  validation of the file, and the module's state is untouched.
\<close>

theorem outside_browser_is_rejected_first:
  assumes "\<not> has_window h"
  shows "convertPdfToImage h file_arg s =
           (s, Returns \<lparr>imageUrl = [], imageFile = None,
                        error = Some ''PDF conversion is only available in the browser.''\<rparr>)"
  using assms by (simp add: convertPdfToImage_def)

theorem outside_browser_is_rejected_first_witness:
  "\<not> has_window server \<and> pdf_regex_test (name resume_pdf) \<and>
   convertPdfToImage server (Some resume_pdf) initial_state =
     (initial_state, Returns \<lparr>imageUrl = [], imageFile = None,
                error = Some ''PDF conversion is only available in the browser.''\<rparr>) \<and>
   convertPdfToImage server (Some notes_txt) initial_state =
     (initial_state, Returns \<lparr>imageUrl = [], imageFile = None,
                error = Some ''PDF conversion is only available in the browser.''\<rparr>)"
proof -
  have s: "\<not> has_window server" by (simp add: server_def browser_def)
  have t: "pdf_regex_test (name resume_pdf)" by (simp add: resume_pdf_def regex_defs char_of_eq_iff)
  from outside_browser_is_rejected_first [OF s, of "Some resume_pdf" initial_state]
    outside_browser_is_rejected_first [OF s, of "Some notes_txt" initial_state] s t
  show ?thesis by simp
qed

subsection \<open>The successful path\<close>

text \<open>
  C5. On the successful path the engine is asked for page 1, which is the page at
  index 0 of the parsed document, then for the viewport at scale 3, whose width and
  height are three times the page's native ones, and the page is rendered into that
  viewport. The canvas, and with it the PNG, has the viewport's size in whole pixels:
  three times the native size, truncated. Converting the same file again, in the state
  the first conversion left and in any host, gives on success a PNG of the same pixel
  dimensions, and so does any successful conversion of it whose engine parses the bytes
  to the same document.
\<close>

theorem first_page_at_scale_three:
  assumes "convertPdfToImage h (Some f) s = (s', Returns r)" "error r = None"
  shows "\<exists>s1 lib buf pdf page image.
           loadPdfJs h s = (s1, Returns lib) \<and> arrayBuffer f = Returns buf \<and>
           getDocument lib buf = Returns pdf \<and>
           doc_pages pdf \<noteq> [] \<and> doc_pages pdf ! 0 = Returns page \<and>
           calls s' = calls s1 @
             [GetDocument buf, GetPage 1, GetViewport 3,
              Render \<lparr>width = 3 * native_width page, height = 3 * native_height page\<rparr>] \<and>
           imageFile r = Some image \<and>
           blob_width (file_blob image) = canvas_dimension 300 (3 * native_width page) \<and>
           blob_height (file_blob image) = canvas_dimension 150 (3 * native_height page) \<and>
           (0 \<le> native_width page \<and> 3 * native_width page < 2147483648 \<longrightarrow>
              blob_width (file_blob image) = nat \<lfloor>3 * native_width page\<rfloor>) \<and>
           (0 \<le> native_height page \<and> 3 * native_height page < 2147483648 \<longrightarrow>
              blob_height (file_blob image) = nat \<lfloor>3 * native_height page\<rfloor>) \<and>
           (\<forall>h2 s2 r2. convertPdfToImage h2 (Some f) s' = (s2, Returns r2) \<and> error r2 = None \<longrightarrow>
              (\<exists>image2. imageFile r2 = Some image2 \<and>
                 blob_width (file_blob image2) = blob_width (file_blob image) \<and>
                 blob_height (file_blob image2) = blob_height (file_blob image))) \<and>
           (\<forall>h2 s2 s2' r2 s3 lib2.
              convertPdfToImage h2 (Some f) s2 = (s2', Returns r2) \<and> error r2 = None \<and>
              loadPdfJs h2 s2 = (s3, Returns lib2) \<and> getDocument lib2 buf = Returns pdf \<longrightarrow>
              (\<exists>image2. imageFile r2 = Some image2 \<and>
                 blob_width (file_blob image2) = blob_width (file_blob image) \<and>
                 blob_height (file_blob image2) = blob_height (file_blob image)))"
proof -
  from convertPdfToImage_success [OF assms]
  obtain s1 lib buf pdf page d u where
    l: "loadPdfJs h s = (s1, Returns lib)" and b: "arrayBuffer f = Returns buf" and
    g: "getDocument lib buf = Returns pdf" and p: "getPage pdf 1 = Returns page" and
    s': "s' = s1\<lparr>calls := calls s1 @ [GetDocument buf, GetPage 1, GetViewport 3,
                                         Render (getViewport page 3)]\<rparr>" and
    r: "r = \<lparr>imageUrl = ''blob:'' @ u,
             imageFile = Some \<lparr>file_name = pdf_regex_replace (name f) @ ''.png'',
                file_type = ''image/png'',
                file_blob = \<lparr>blob_width = canvas_dimension 300 (3 * native_width page),
                   blob_height = canvas_dimension 150 (3 * native_height page),
                   blob_data = d\<rparr>\<rparr>,
             error = None\<rparr>"
    by blast
  define image where "image = \<lparr>file_name = pdf_regex_replace (name f) @ ''.png'',
                file_type = ''image/png'',
                file_blob = \<lparr>blob_width = canvas_dimension 300 (3 * native_width page),
                   blob_height = canvas_dimension 150 (3 * native_height page),
                   blob_data = d\<rparr>\<rparr>"
  have same: "\<exists>image2. imageFile r2 = Some image2 \<and>
                 blob_width (file_blob image2) = blob_width (file_blob image) \<and>
                 blob_height (file_blob image2) = blob_height (file_blob image)"
    if c: "convertPdfToImage h2 (Some f) s2 = (s2', Returns r2)" and e: "error r2 = None"
      and l2: "loadPdfJs h2 s2 = (s3, Returns lib2)" and g2: "getDocument lib2 buf = Returns pdf"
    for h2 s2 s2' r2 s3 lib2
    using convertPdfToImage_success [OF c e] l2 g2 b p by (auto simp: image_def)
  have again: "loadPdfJs h2 s' = (s', Returns lib)" for h2
    unfolding s' using l by (rule loadPdfJs_again)
  have "loadPdfJs h s = (s1, Returns lib) \<and> arrayBuffer f = Returns buf \<and>
           getDocument lib buf = Returns pdf \<and>
           doc_pages pdf \<noteq> [] \<and> doc_pages pdf ! 0 = Returns page \<and>
           calls s' = calls s1 @
             [GetDocument buf, GetPage 1, GetViewport 3,
              Render \<lparr>width = 3 * native_width page, height = 3 * native_height page\<rparr>] \<and>
           imageFile r = Some image \<and>
           blob_width (file_blob image) = canvas_dimension 300 (3 * native_width page) \<and>
           blob_height (file_blob image) = canvas_dimension 150 (3 * native_height page)"
    using l b g getPage_first [OF p] by (simp add: s' r image_def getViewport_def)
  moreover have "0 \<le> native_width page \<and> 3 * native_width page < 2147483648 \<longrightarrow>
              blob_width (file_blob image) = nat \<lfloor>3 * native_width page\<rfloor>"
    by (simp add: image_def canvas_dimension_floor)
  moreover have "0 \<le> native_height page \<and> 3 * native_height page < 2147483648 \<longrightarrow>
              blob_height (file_blob image) = nat \<lfloor>3 * native_height page\<rfloor>"
    by (simp add: image_def canvas_dimension_floor)
  moreover have "\<forall>h2 s2 r2. convertPdfToImage h2 (Some f) s' = (s2, Returns r2) \<and> error r2 = None \<longrightarrow>
              (\<exists>image2. imageFile r2 = Some image2 \<and>
                 blob_width (file_blob image2) = blob_width (file_blob image) \<and>
                 blob_height (file_blob image2) = blob_height (file_blob image))"
    using same again g by blast
  moreover have "\<forall>h2 s2 s2' r2 s3 lib2.
              convertPdfToImage h2 (Some f) s2 = (s2', Returns r2) \<and> error r2 = None \<and>
              loadPdfJs h2 s2 = (s3, Returns lib2) \<and> getDocument lib2 buf = Returns pdf \<longrightarrow>
              (\<exists>image2. imageFile r2 = Some image2 \<and>
                 blob_width (file_blob image2) = blob_width (file_blob image) \<and>
                 blob_height (file_blob image2) = blob_height (file_blob image))"
    using same by blast
  ultimately show ?thesis by blast
qed

theorem first_page_at_scale_three_witness:
  "convertPdfToImage browser (Some resume_pdf) initial_state =
     (ready_state\<lparr>calls := calls ready_state @
         [GetDocument [37, 80, 68, 70], GetPage 1, GetViewport 3,
          Render \<lparr>width = 1836, height = 2376\<rparr>]\<rparr>,
      Returns \<lparr>imageUrl = ''blob:http://localhost/0b1c'',
               imageFile = Some \<lparr>file_name = ''resume.png'', file_type = ''image/png'',
                  file_blob = \<lparr>blob_width = 1836, blob_height = 2376,
                               blob_data = [137, 80, 78, 71]\<rparr>\<rparr>,
               error = None\<rparr>) \<and>
   convertPdfToImage other_browser (Some resume_pdf)
       (ready_state\<lparr>calls := calls ready_state @
         [GetDocument [37, 80, 68, 70], GetPage 1, GetViewport 3,
          Render \<lparr>width = 1836, height = 2376\<rparr>]\<rparr>) =
     (ready_state\<lparr>calls := calls ready_state @
         [GetDocument [37, 80, 68, 70], GetPage 1, GetViewport 3,
          Render \<lparr>width = 1836, height = 2376\<rparr>,
          GetDocument [37, 80, 68, 70], GetPage 1, GetViewport 3,
          Render \<lparr>width = 1836, height = 2376\<rparr>]\<rparr>,
      Returns \<lparr>imageUrl = ''blob:http://localhost/77aa'',
               imageFile = Some \<lparr>file_name = ''resume.png'', file_type = ''image/png'',
                  file_blob = \<lparr>blob_width = 1836, blob_height = 2376,
                               blob_data = [137, 80, 78, 71, 13]\<rparr>\<rparr>,
               error = None\<rparr>) \<and>
   doc_pages sample_document ! 0 = Returns sample_page \<and>
   3 * native_width sample_page = 1836 \<and> 3 * native_height sample_page = 2376 \<and>
   snd (convertPdfToImage a4_browser (Some resume_pdf) initial_state) =
     Returns \<lparr>imageUrl = ''blob:http://localhost/0b1c'',
              imageFile = Some \<lparr>file_name = ''resume.png'', file_type = ''image/png'',
                 file_blob = \<lparr>blob_width = 1785, blob_height = 2525,
                              blob_data = [137, 80, 78, 71]\<rparr>\<rparr>,
              error = None\<rparr> \<and>
   3 * native_width a4_page = 446457 / 250 \<and> 3 * native_height a4_page = 252567 / 100 \<and>
   nat \<lfloor>446457 / 250 :: rat\<rfloor> = 1785 \<and> nat \<lfloor>252567 / 100 :: rat\<rfloor> = 2525"
proof -
  have c1: "convertPdfToImage browser (Some resume_pdf) initial_state =
     (ready_state\<lparr>calls := calls ready_state @
         [GetDocument [37, 80, 68, 70], GetPage 1, GetViewport 3,
          Render \<lparr>width = 1836, height = 2376\<rparr>]\<rparr>,
      Returns \<lparr>imageUrl = ''blob:http://localhost/0b1c'',
               imageFile = Some \<lparr>file_name = ''resume.png'', file_type = ''image/png'',
                  file_blob = \<lparr>blob_width = 1836, blob_height = 2376,
                               blob_data = [137, 80, 78, 71]\<rparr>\<rparr>,
               error = None\<rparr>)"
    by (simp add: eval_defs ready_defs)
  have c2: "convertPdfToImage other_browser (Some resume_pdf)
       (ready_state\<lparr>calls := calls ready_state @
         [GetDocument [37, 80, 68, 70], GetPage 1, GetViewport 3,
          Render \<lparr>width = 1836, height = 2376\<rparr>]\<rparr>) =
     (ready_state\<lparr>calls := calls ready_state @
         [GetDocument [37, 80, 68, 70], GetPage 1, GetViewport 3,
          Render \<lparr>width = 1836, height = 2376\<rparr>,
          GetDocument [37, 80, 68, 70], GetPage 1, GetViewport 3,
          Render \<lparr>width = 1836, height = 2376\<rparr>]\<rparr>,
      Returns \<lparr>imageUrl = ''blob:http://localhost/77aa'',
               imageFile = Some \<lparr>file_name = ''resume.png'', file_type = ''image/png'',
                  file_blob = \<lparr>blob_width = 1836, blob_height = 2376,
                               blob_data = [137, 80, 78, 71, 13]\<rparr>\<rparr>,
               error = None\<rparr>)"
    by (simp add: eval_defs ready_defs)
  have p: "doc_pages sample_document ! 0 = Returns sample_page"
    "3 * native_width sample_page = 1836" "3 * native_height sample_page = 2376"
    "3 * native_width a4_page = 446457 / 250" "3 * native_height a4_page = 252567 / 100"
    by (simp_all add: sample_defs a4_defs)
  have a4: "snd (convertPdfToImage a4_browser (Some resume_pdf) initial_state) =
     Returns \<lparr>imageUrl = ''blob:http://localhost/0b1c'',
              imageFile = Some \<lparr>file_name = ''resume.png'', file_type = ''image/png'',
                 file_blob = \<lparr>blob_width = 1785, blob_height = 2525,
                              blob_data = [137, 80, 78, 71]\<rparr>\<rparr>,
              error = None\<rparr>"
    by (simp add: eval_defs a4_defs a4_floors)
  from first_page_at_scale_three [OF c1] c1 c2 p a4 a4_floors show ?thesis by simp
qed

text \<open>
  C6. On the successful path, for a file named by a stem followed by \<^verbatim>\<open>.pdf\<close> in any
  spelling of upper and lower case, the result has no error field, a non-empty imageUrl,
  and a file of type \<^verbatim>\<open>image/png\<close> whose name is the stem followed by \<^verbatim>\<open>.png\<close>. The first
  part says that the result is returned when every step succeeds, the second that every
  result without an error is of this kind.
\<close>

theorem successful_result_is_stem_png:
  assumes "name f = stem @ suf"
    "suf \<in> set [''.pdf'', ''.pdF'', ''.pDf'', ''.pDF'', ''.Pdf'', ''.PdF'', ''.PDf'', ''.PDF'']"
  shows "(has_window h \<and> loadPdfJs h s = (s1, Returns lib) \<and> arrayBuffer f = Returns buf \<and>
          getDocument lib buf = Returns pdf \<and> getPage pdf 1 = Returns page \<and>
          createElement_canvas h = Returns () \<and> getContext_2d h = Returns True \<and>
          render_promise page = Returns () \<and> toBlob_callback h = Returns (Some d) \<and>
          createObjectURL_id h = Returns u \<longrightarrow>
          convertPdfToImage h (Some f) s =
            (s1\<lparr>calls := calls s1 @ [GetDocument buf, GetPage 1, GetViewport 3,
                                        Render (getViewport page 3)]\<rparr>,
             Returns \<lparr>imageUrl = ''blob:'' @ u,
                      imageFile = Some \<lparr>file_name = stem @ ''.png'',
                         file_type = ''image/png'',
                         file_blob = \<lparr>blob_width = canvas_dimension 300 (3 * native_width page),
                            blob_height = canvas_dimension 150 (3 * native_height page), blob_data = d\<rparr>\<rparr>,
                      error = None\<rparr>)) \<and>
         (convertPdfToImage h (Some f) s = (s', Returns r) \<and> error r = None \<longrightarrow>
          imageUrl r \<noteq> [] \<and>
          (\<exists>image. imageFile r = Some image \<and> file_name image = stem @ ''.png'' \<and>
             file_type image = ''image/png''))"
proof -
  from assms(2) have here: "pdf_here suf" by (simp only: pdf_here_spellings)
  with assms(1) have t: "pdf_regex_test (name f)"
    unfolding pdf_regex_test_iff by blast
  from here assms(1) have rep: "pdf_regex_replace (name f) = stem"
    by (simp add: pdf_regex_replace_append)
  show ?thesis
  proof (intro conjI impI)
    assume a: "has_window h \<and> loadPdfJs h s = (s1, Returns lib) \<and> arrayBuffer f = Returns buf \<and>
          getDocument lib buf = Returns pdf \<and> getPage pdf 1 = Returns page \<and>
          createElement_canvas h = Returns () \<and> getContext_2d h = Returns True \<and>
          render_promise page = Returns () \<and> toBlob_callback h = Returns (Some d) \<and>
          createObjectURL_id h = Returns u"
    then have "main_path h f s =
           (s1\<lparr>calls := calls s1 @ [GetDocument buf, GetPage 1, GetViewport 3,
                                       Render (getViewport page 3)]\<rparr>,
            Returns \<lparr>imageUrl = ''blob:'' @ u,
                     imageFile = Some \<lparr>file_name = pdf_regex_replace (name f) @ ''.png'',
                        file_type = ''image/png'',
                        file_blob = \<lparr>blob_width = canvas_dimension 300 (3 * native_width page),
                           blob_height = canvas_dimension 150 (3 * native_height page), blob_data = d\<rparr>\<rparr>,
                     error = None\<rparr>)"
      by (intro main_path_success [where lib = lib and buf = buf and pdf = pdf]) simp_all
    with a t rep show "convertPdfToImage h (Some f) s =
            (s1\<lparr>calls := calls s1 @ [GetDocument buf, GetPage 1, GetViewport 3,
                                        Render (getViewport page 3)]\<rparr>,
             Returns \<lparr>imageUrl = ''blob:'' @ u,
                      imageFile = Some \<lparr>file_name = stem @ ''.png'',
                         file_type = ''image/png'',
                         file_blob = \<lparr>blob_width = canvas_dimension 300 (3 * native_width page),
                            blob_height = canvas_dimension 150 (3 * native_height page), blob_data = d\<rparr>\<rparr>,
                      error = None\<rparr>)"
      by (simp add: convertPdfToImage_main_path)
  next
    assume b: "convertPdfToImage h (Some f) s = (s', Returns r) \<and> error r = None"
    then have "convertPdfToImage h (Some f) s = (s', Returns r)" "error r = None" by simp_all
    from convertPdfToImage_success [OF this] rep
    show "imageUrl r \<noteq> []" 
      "\<exists>image. imageFile r = Some image \<and> file_name image = stem @ ''.png'' \<and>
             file_type image = ''image/png''"
      by auto
  qed
qed

theorem successful_result_is_stem_png_witness:
  "name resume_pdf = ''resume'' @ ''.PDF'' \<and>
   convertPdfToImage browser (Some resume_pdf) initial_state =
     (ready_state\<lparr>calls := calls ready_state @
         [GetDocument [37, 80, 68, 70], GetPage 1, GetViewport 3,
          Render \<lparr>width = 1836, height = 2376\<rparr>]\<rparr>,
      Returns \<lparr>imageUrl = ''blob:http://localhost/0b1c'',
               imageFile = Some \<lparr>file_name = ''resume.png'', file_type = ''image/png'',
                  file_blob = \<lparr>blob_width = 1836, blob_height = 2376,
                               blob_data = [137, 80, 78, 71]\<rparr>\<rparr>,
               error = None\<rparr>)"
proof -
  have n: "name resume_pdf = ''resume'' @ ''.PDF''" "arrayBuffer resume_pdf = Returns [37, 80, 68, 70]"
    by (simp_all add: resume_pdf_def)
  from successful_result_is_stem_png [of resume_pdf "''resume''" "''.PDF''" browser
      initial_state ready_state ready_engine "[37, 80, 68, 70]" sample_document sample_page
      "[137, 80, 78, 71]" "''http://localhost/0b1c''"]
    n loadPdfJs_browser sample_steps browser_fields
  show ?thesis by (simp add: canvas_dimension_def to_unsigned_long_def)
qed

subsection \<open>The missing canvas context\<close>

text \<open>
  C7. When every step before it succeeds and the canvas gives no 2D context, the body
  of the try block itself returns (it does not throw) the result with the error
  \<^verbatim>\<open>Unable to get 2D canvas context.\<close>, which contains \<^verbatim>\<open>2D canvas context\<close>, no file and
  the empty imageUrl, and convertPdfToImage returns that result.
\<close>

theorem missing_context_is_a_guard:
  assumes "has_window h" "ends_in_pdf_ignoring_case (name f)"
    "loadPdfJs h s = (s1, Returns lib)" "arrayBuffer f = Returns buf"
    "getDocument lib buf = Returns pdf" "getPage pdf 1 = Returns page"
    "createElement_canvas h = Returns ()" "getContext_2d h = Returns False"
  shows "main_path h f s =
           (s1\<lparr>calls := calls s1 @ [GetDocument buf, GetPage 1, GetViewport 3]\<rparr>,
            Returns \<lparr>imageUrl = [], imageFile = None,
                     error = Some ''Unable to get 2D canvas context.''\<rparr>) \<and>
         convertPdfToImage h (Some f) s =
           (s1\<lparr>calls := calls s1 @ [GetDocument buf, GetPage 1, GetViewport 3]\<rparr>,
            Returns \<lparr>imageUrl = [], imageFile = None,
                     error = Some ''Unable to get 2D canvas context.''\<rparr>) \<and>
         ''Unable to get 2D canvas context.'' = ''Unable to get '' @ ''2D canvas context'' @ ''.''"
proof -
  have m: "main_path h f s =
           (s1\<lparr>calls := calls s1 @ [GetDocument buf, GetPage 1, GetViewport 3]\<rparr>,
            Returns \<lparr>imageUrl = [], imageFile = None,
                     error = Some ''Unable to get 2D canvas context.''\<rparr>)"
    using assms(3-8) by (rule main_path_without_context)
  from assms(2) have "pdf_regex_test (name f)" by (simp only: pdf_regex_test_ends)
  with m assms(1) show ?thesis by (simp add: convertPdfToImage_main_path)
qed

theorem missing_context_is_a_guard_witness:
  "has_window browser_without_canvas \<and> ends_in_pdf_ignoring_case (name resume_pdf) \<and>
   getContext_2d browser_without_canvas = Returns False \<and>
   convertPdfToImage browser_without_canvas (Some resume_pdf) initial_state =
     (ready_state\<lparr>calls := calls ready_state @
         [GetDocument [37, 80, 68, 70], GetPage 1, GetViewport 3]\<rparr>,
      Returns \<lparr>imageUrl = [], imageFile = None,
               error = Some ''Unable to get 2D canvas context.''\<rparr>)"
proof -
  have n: "ends_in_pdf_ignoring_case (name resume_pdf)"
    "arrayBuffer resume_pdf = Returns [37, 80, 68, 70]"
    by (simp_all add: resume_pdf_def ends_in_pdf_ignoring_case_def)
  from missing_context_is_a_guard [of browser_without_canvas resume_pdf initial_state
      ready_state ready_engine "[37, 80, 68, 70]" sample_document sample_page]
    n loadPdfJs_browser_without_canvas sample_steps browser_fields
  show ?thesis by simp
qed

subsection \<open>Single-flight loading\<close>

text \<open>
  C8. However calls of loadPdfJs and the settling of the two imports interleave, the
  engine import is started at most once and the engine is initialised at most once;
  every promise that a call handed back is the one promise in \<^verbatim>\<open>loadPromise\<close>, also for
  calls made while the initialisation is in flight; whatever two calls resolve to is
  the same module, the one in \<^verbatim>\<open>pdfjsLib\<close>; once \<^verbatim>\<open>pdfjsLib\<close> holds a module, every call
  made so far, the in-flight ones included, resolves to it; and when calls are waiting
  and the promise is not rejected, the engine import giving a module and the worker
  import settling leave \<^verbatim>\<open>pdfjsLib\<close> holding a module to which all of them resolve.
\<close>

theorem loadPdfJs_single_flight:
  assumes "run evs (initial_state, []) = (s, rs)"
  shows "count_list (calls s) ImportEngine \<le> 1 \<and>
         length (promises s) \<le> 1 \<and>
         length (filter is_SetWorkerSrc (calls s)) \<le> 1 \<and>
         (\<forall>r \<in> set rs. \<forall>r' \<in> set rs. \<forall>lib lib'.
            resolves_to s r = Some lib \<and> resolves_to s r' = Some lib' \<longrightarrow>
            lib = lib' \<and> pdfjsLib s = Some lib) \<and>
         (\<forall>r \<in> set rs. \<forall>p. r = Awaits p \<longrightarrow> loadPromise s = Some p \<and> p = 0) \<and>
         (\<forall>lib. pdfjsLib s = Some lib \<longrightarrow> (\<forall>r \<in> set rs. resolves_to s r = Some lib)) \<and>
         (\<forall>m w. rs \<noteq> [] \<and> w \<noteq> Never \<and> (\<forall>e. promises s \<noteq> [Rejected e]) \<longrightarrow>
            (\<exists>lib. run [EngineImportSettles 0 (Returns m), WorkerImportSettles 0 w] (s, rs) =
                     (worker_import_settles 0 w (engine_import_settles 0 (Returns m) s), rs) \<and>
                   pdfjsLib (worker_import_settles 0 w (engine_import_settles 0 (Returns m) s)) =
                     Some lib \<and>
                   (\<forall>r \<in> set rs.
                      resolves_to (worker_import_settles 0 w (engine_import_settles 0 (Returns m) s)) r =
                        Some lib)))"
proof -
  have inv: "single_flight (s, rs)"
    using single_flight_run [OF single_flight_initial, of evs] assms by simp
  have len: "length (promises s) \<le> 1"
    and lib_inv: "case pdfjsLib s of
           None \<Rightarrow> (\<forall>lib. promises s \<noteq> [Fulfilled lib]) \<and> filter is_SetWorkerSrc (calls s) = []
         | Some lib \<Rightarrow> promises s = [Fulfilled lib] \<and> length (filter is_SetWorkerSrc (calls s)) = 1"
    and rets: "\<forall>r \<in> set rs. r = Awaits 0 \<and> promises s \<noteq> [] \<or>
                        (\<exists>lib. r = Immediate lib \<and> pdfjsLib s = Some lib)"
    using inv by (simp_all add: single_flight_def)
  have res: "pdfjsLib s = Some lib" if r: "r \<in> set rs" and to: "resolves_to s r = Some lib" for r lib
  proof (cases r)
    case (Immediate lib0)
    with rets r to show ?thesis by auto
  next
    case (Awaits p)
    with rets r have p: "p = 0" by auto
    from to Awaits p have "0 < length (promises s)" "promises s ! 0 = Fulfilled lib"
      by (auto simp: promise_outcome_def split: if_splits load_promise.splits)
    with len have "promises s = [Fulfilled lib]"
      by (cases "promises s") auto
    with lib_inv show ?thesis
      by (cases "pdfjsLib s") auto
  qed
  have settled: "\<exists>lib. run [EngineImportSettles 0 (Returns m), WorkerImportSettles 0 w] (s, rs) =
                     (worker_import_settles 0 w (engine_import_settles 0 (Returns m) s), rs) \<and>
                   pdfjsLib (worker_import_settles 0 w (engine_import_settles 0 (Returns m) s)) =
                     Some lib \<and>
                   (\<forall>r \<in> set rs.
                      resolves_to (worker_import_settles 0 w (engine_import_settles 0 (Returns m) s)) r =
                        Some lib)"
    if "rs \<noteq> [] \<and> w \<noteq> Never \<and> (\<forall>e. promises s \<noteq> [Rejected e])" for m w
  proof -
    let ?s' = "worker_import_settles 0 w (engine_import_settles 0 (Returns m) s)"
    have inv': "single_flight (?s', rs)"
      by (intro single_flight_worker single_flight_engine inv)
    from single_flight_settles [OF inv, of w m] that
    obtain lib where lib: "pdfjsLib ?s' = Some lib" by blast
    with inv' have "\<forall>r \<in> set rs. resolves_to ?s' r = Some lib"
      by (auto intro: single_flight_resolved)
    with lib show ?thesis by simp
  qed
  show ?thesis
  proof (intro conjI ballI allI impI)
    show "count_list (calls s) ImportEngine \<le> 1"
      using inv by (simp add: single_flight_def)
    show "length (promises s) \<le> 1"
      by (rule len)
    show "length (filter is_SetWorkerSrc (calls s)) \<le> 1"
      using inv by (auto simp: single_flight_def split: option.splits)
  next
    fix r r' lib lib'
    assume "r \<in> set rs" "r' \<in> set rs"
      "resolves_to s r = Some lib \<and> resolves_to s r' = Some lib'"
    then have "pdfjsLib s = Some lib" "pdfjsLib s = Some lib'" by (auto dest: res)
    then show "lib = lib'" by simp
  next
    fix r r' lib lib'
    assume "r \<in> set rs" "resolves_to s r = Some lib \<and> resolves_to s r' = Some lib'"
    then show "pdfjsLib s = Some lib" by (auto dest: res)
  next
    fix r p
    assume "r \<in> set rs" "r = Awaits p"
    then show "loadPromise s = Some p" "p = 0"
      using inv by (auto simp: single_flight_def)
  next
    fix lib r
    assume "pdfjsLib s = Some lib" "r \<in> set rs"
    with inv show "resolves_to s r = Some lib" by (rule single_flight_resolved)
  next
    fix m and w :: "worker_module outcome"
    assume "rs \<noteq> [] \<and> w \<noteq> Never \<and> (\<forall>e. promises s \<noteq> [Rejected e])"
    then show "\<exists>lib. run [EngineImportSettles 0 (Returns m), WorkerImportSettles 0 w] (s, rs) =
                     (worker_import_settles 0 w (engine_import_settles 0 (Returns m) s), rs) \<and>
                   pdfjsLib (worker_import_settles 0 w (engine_import_settles 0 (Returns m) s)) =
                     Some lib \<and>
                   (\<forall>r \<in> set rs.
                      resolves_to (worker_import_settles 0 w (engine_import_settles 0 (Returns m) s)) r =
                        Some lib)"
      by (rule settled)
  qed
qed

theorem loadPdfJs_single_flight_witness:
  "run sample_events (initial_state, []) =
     (\<lparr>pdfjsLib = Some fallback_engine, loadPromise = Some 0,
       promises = [Fulfilled fallback_engine],
       calls = [ImportEngine, ImportWorker, SetWorkerSrc ''/pdf.worker.min.mjs'']\<rparr>,
      [Awaits 0, Awaits 0, Awaits 0, Immediate fallback_engine]) \<and>
   resolves_to
     \<lparr>pdfjsLib = Some fallback_engine, loadPromise = Some 0,
      promises = [Fulfilled fallback_engine],
      calls = [ImportEngine, ImportWorker, SetWorkerSrc ''/pdf.worker.min.mjs'']\<rparr>
     (Awaits 0) = Some fallback_engine \<and>
   resolves_to
     \<lparr>pdfjsLib = Some fallback_engine, loadPromise = Some 0,
      promises = [Fulfilled fallback_engine],
      calls = [ImportEngine, ImportWorker, SetWorkerSrc ''/pdf.worker.min.mjs'']\<rparr>
     (Immediate fallback_engine) = Some fallback_engine \<and>
   count_list [ImportEngine, ImportWorker, SetWorkerSrc ''/pdf.worker.min.mjs''] ImportEngine = 1 \<and>
   length (filter is_SetWorkerSrc
     [ImportEngine, ImportWorker, SetWorkerSrc ''/pdf.worker.min.mjs'']) = 1 \<and>
   run [CallLoadPdfJs, CallLoadPdfJs] (initial_state, []) =
     (\<lparr>pdfjsLib = None, loadPromise = Some 0, promises = [AwaitingImport],
       calls = [ImportEngine]\<rparr>,
      [Awaits 0, Awaits 0]) \<and>
   resolves_to
     \<lparr>pdfjsLib = None, loadPromise = Some 0, promises = [AwaitingImport],
      calls = [ImportEngine]\<rparr>
     (Awaits 0) = None \<and>
   run [EngineImportSettles 0 (Returns sample_engine),
        WorkerImportSettles 0 (Throws (ErrorObject ''Error'' ''no asset''))]
     (\<lparr>pdfjsLib = None, loadPromise = Some 0, promises = [AwaitingImport],
       calls = [ImportEngine]\<rparr>,
      [Awaits 0, Awaits 0]) =
     (\<lparr>pdfjsLib = Some fallback_engine, loadPromise = Some 0,
       promises = [Fulfilled fallback_engine],
       calls = [ImportEngine, ImportWorker, SetWorkerSrc ''/pdf.worker.min.mjs'']\<rparr>,
      [Awaits 0, Awaits 0])"
proof -
  have r: "run sample_events (initial_state, []) =
     (\<lparr>pdfjsLib = Some fallback_engine, loadPromise = Some 0,
       promises = [Fulfilled fallback_engine],
       calls = [ImportEngine, ImportWorker, SetWorkerSrc ''/pdf.worker.min.mjs'']\<rparr>,
      [Awaits 0, Awaits 0, Awaits 0, Immediate fallback_engine])"
    by (simp add: sample_events_def load_defs fallback_engine_def Let_def)
  have q: "run [CallLoadPdfJs, CallLoadPdfJs] (initial_state, []) =
     (\<lparr>pdfjsLib = None, loadPromise = Some 0, promises = [AwaitingImport],
       calls = [ImportEngine]\<rparr>,
      [Awaits 0, Awaits 0])"
    by (simp add: load_defs Let_def)
  have w: "Throws (ErrorObject ''Error'' ''no asset'') \<noteq> (Never :: worker_module outcome)"
    by simp
  have t: "run [EngineImportSettles 0 (Returns sample_engine),
        WorkerImportSettles 0 (Throws (ErrorObject ''Error'' ''no asset''))]
     (\<lparr>pdfjsLib = None, loadPromise = Some 0, promises = [AwaitingImport],
       calls = [ImportEngine]\<rparr>,
      [Awaits 0, Awaits 0]) =
     (\<lparr>pdfjsLib = Some fallback_engine, loadPromise = Some 0,
       promises = [Fulfilled fallback_engine],
       calls = [ImportEngine, ImportWorker, SetWorkerSrc ''/pdf.worker.min.mjs'']\<rparr>,
      [Awaits 0, Awaits 0])"
    by (simp add: load_defs fallback_engine_def Let_def)
  from loadPdfJs_single_flight [OF r] loadPdfJs_single_flight [OF q] r q w t show ?thesis
    by (simp add: promise_outcome_def is_SetWorkerSrc_def)
qed

subsection \<open>The worker location\<close>

text \<open>
  C9. getWorkerUrl never raises. Whenever the import of the worker asset settles, by a
  module, by a failure or by a module without a usable default export, it returns a
  string; on a failure and on a falsy or missing default export that string is
  \<^verbatim>\<open>/pdf.worker.min.mjs\<close>.
\<close>

theorem getWorkerUrl_never_raises:
  "getWorkerUrl imp \<noteq> Throws e \<and>
   (imp = Never \<or> (\<exists>u. getWorkerUrl imp = Returns u)) \<and>
   getWorkerUrl (Throws e) = Returns ''/pdf.worker.min.mjs'' \<and>
   getWorkerUrl (Returns FalsyModule) = Returns ''/pdf.worker.min.mjs'' \<and>
   getWorkerUrl (Returns (Module None)) = Returns ''/pdf.worker.min.mjs'' \<and>
   getWorkerUrl (Returns (Module (Some []))) = Returns ''/pdf.worker.min.mjs'' \<and>
   (u \<noteq> [] \<longrightarrow> getWorkerUrl (Returns (Module (Some u))) = Returns u)"
  by (auto simp: getWorkerUrl_def split: outcome.splits worker_module.splits option.splits)

theorem getWorkerUrl_never_raises_witness:
  "''/assets/pdf.worker.min.mjs'' \<noteq> [] \<and>
   getWorkerUrl (Returns (Module (Some ''/assets/pdf.worker.min.mjs''))) =
     Returns ''/assets/pdf.worker.min.mjs'' \<and>
   getWorkerUrl (Throws (ErrorObject ''TypeError'' ''Failed to fetch'')) =
     Returns ''/pdf.worker.min.mjs''"
  using getWorkerUrl_never_raises [of "Returns (Module (Some ''/assets/pdf.worker.min.mjs''))"
      "ErrorObject ''TypeError'' ''Failed to fetch''" "''/assets/pdf.worker.min.mjs''"]
  by simp

subsection \<open>File names\<close>

text \<open>
  C10. Validation and stripping look at the last four characters only: a name passes
  the validation exactly when it ends in \<^verbatim>\<open>.pdf\<close> (letters in either case), and stripping
  such a name removes its last four characters and nothing else. The name \<^verbatim>\<open>.pdf\<close> passes
  the validation and a successful conversion of it gives a file named \<^verbatim>\<open>.png\<close>; of
  \<^verbatim>\<open>a.pdf.pdf\<close> only the last \<^verbatim>\<open>.pdf\<close> is removed, and a successful conversion gives a
  file named \<^verbatim>\<open>a.pdf.png\<close>.
\<close>

theorem only_the_final_suffix_counts:
  "pdf_regex_test n = ends_in_pdf_ignoring_case n \<and>
   (ends_in_pdf_ignoring_case n \<longrightarrow> pdf_regex_replace n = take (length n - 4) n) \<and>
   pdf_regex_test ''.pdf'' \<and> pdf_regex_replace ''.pdf'' = [] \<and>
   pdf_regex_test ''a.pdf.pdf'' \<and> pdf_regex_replace ''a.pdf.pdf'' = ''a.pdf'' \<and>
   (convertPdfToImage h (Some f) s = (s', Returns r) \<and> error r = None \<longrightarrow>
      (name f = ''.pdf'' \<longrightarrow> map_option file_name (imageFile r) = Some ''.png'') \<and>
      (name f = ''a.pdf.pdf'' \<longrightarrow> map_option file_name (imageFile r) = Some ''a.pdf.png''))"
proof -
  have e: "pdf_regex_test ''.pdf''" "pdf_regex_replace ''.pdf'' = []"
    "pdf_regex_test ''a.pdf.pdf''" "pdf_regex_replace ''a.pdf.pdf'' = ''a.pdf''"
    by (simp_all add: regex_defs char_of_eq_iff)
  have "map_option file_name (imageFile r) = Some (pdf_regex_replace (name f) @ ''.png'')"
    if "convertPdfToImage h (Some f) s = (s', Returns r)" "error r = None"
    using convertPdfToImage_success [OF that] by auto
  moreover have "pdf_regex_replace n = take (length n - 4) n" if "ends_in_pdf_ignoring_case n"
  proof -
    from that have "pdf_regex_test n" by (simp only: pdf_regex_test_ends)
    then obtain stem suf where n: "n = stem @ suf" and suf: "pdf_here suf"
      unfolding pdf_regex_test_iff by blast
    from suf have "length suf = 4" by (rule pdf_here_length)
    with n have "take (length n - 4) n = stem" by simp
    with n suf show ?thesis by (simp add: pdf_regex_replace_append)
  qed
  ultimately show ?thesis using e by (auto simp: pdf_regex_test_ends)
qed

theorem only_the_final_suffix_counts_witness:
  "ends_in_pdf_ignoring_case ''a.pdf.pdf'' \<and>
   pdf_regex_replace ''a.pdf.pdf'' = take (length ''a.pdf.pdf'' - 4) ''a.pdf.pdf'' \<and>
   convertPdfToImage browser (Some dot_pdf) initial_state =
     (ready_state\<lparr>calls := calls ready_state @
         [GetDocument [37, 80, 68, 70], GetPage 1, GetViewport 3,
          Render \<lparr>width = 1836, height = 2376\<rparr>]\<rparr>,
      Returns \<lparr>imageUrl = ''blob:http://localhost/0b1c'',
               imageFile = Some \<lparr>file_name = ''.png'', file_type = ''image/png'',
                  file_blob = \<lparr>blob_width = 1836, blob_height = 2376,
                               blob_data = [137, 80, 78, 71]\<rparr>\<rparr>,
               error = None\<rparr>) \<and>
   convertPdfToImage browser (Some a_pdf_pdf) initial_state =
     (ready_state\<lparr>calls := calls ready_state @
         [GetDocument [37, 80, 68, 70], GetPage 1, GetViewport 3,
          Render \<lparr>width = 1836, height = 2376\<rparr>]\<rparr>,
      Returns \<lparr>imageUrl = ''blob:http://localhost/0b1c'',
               imageFile = Some \<lparr>file_name = ''a.pdf.png'', file_type = ''image/png'',
                  file_blob = \<lparr>blob_width = 1836, blob_height = 2376,
                               blob_data = [137, 80, 78, 71]\<rparr>\<rparr>,
               error = None\<rparr>)"
proof -
  have d: "convertPdfToImage browser (Some dot_pdf) initial_state =
     (ready_state\<lparr>calls := calls ready_state @
         [GetDocument [37, 80, 68, 70], GetPage 1, GetViewport 3,
          Render \<lparr>width = 1836, height = 2376\<rparr>]\<rparr>,
      Returns \<lparr>imageUrl = ''blob:http://localhost/0b1c'',
               imageFile = Some \<lparr>file_name = ''.png'', file_type = ''image/png'',
                  file_blob = \<lparr>blob_width = 1836, blob_height = 2376,
                               blob_data = [137, 80, 78, 71]\<rparr>\<rparr>,
               error = None\<rparr>)"
    by (simp add: eval_defs ready_defs)
  have a: "convertPdfToImage browser (Some a_pdf_pdf) initial_state =
     (ready_state\<lparr>calls := calls ready_state @
         [GetDocument [37, 80, 68, 70], GetPage 1, GetViewport 3,
          Render \<lparr>width = 1836, height = 2376\<rparr>]\<rparr>,
      Returns \<lparr>imageUrl = ''blob:http://localhost/0b1c'',
               imageFile = Some \<lparr>file_name = ''a.pdf.png'', file_type = ''image/png'',
                  file_blob = \<lparr>blob_width = 1836, blob_height = 2376,
                               blob_data = [137, 80, 78, 71]\<rparr>\<rparr>,
               error = None\<rparr>)"
    by (simp add: eval_defs ready_defs)
  have e: "ends_in_pdf_ignoring_case ''a.pdf.pdf''"
    by (simp add: ends_in_pdf_ignoring_case_def)
  from only_the_final_suffix_counts [of "''a.pdf.pdf''" browser dot_pdf initial_state]
    only_the_final_suffix_counts [of "''a.pdf.pdf''" browser a_pdf_pdf initial_state] d a e
  show ?thesis by simp
qed

end
